theory Spec2Isabelle
  imports
    Main
    "HOL-Library.Multiset"
    "HOL-Library.Sublist"
    "HOL-Library.List_Lexorder"
    "HOL-Library.AList"
begin

section \<open>Python values, exceptions and string operations\<close>

text \<open>
  The service in \<^verbatim>\<open>src/mcp_server.py\<close> works on decoded JSON documents. Python's
  \<^verbatim>\<open>json\<close> decoder yields \<^verbatim>\<open>None\<close>, booleans, numbers, strings, lists and
  dictionaries; a dictionary is kept as an association list in insertion order with
  distinct keys. JSON numbers are modelled as integers. Strings are lists of
  characters with code points below 256.
\<close>

datatype json =
    JNull
  | JBool bool
  | JNum int
  | JStr string
  | JArr "json list"
  | JObj "(string \<times> json) list"

text \<open>
  Every exception the code can meet is a value; each constructor carries what
  \<^verbatim>\<open>str(e)\<close> needs. \<open>InvalidVersion\<close> is raised by \<^verbatim>\<open>packaging.version.parse\<close> and
  carries the offending string; \<open>KeyError\<close> carries the \<^verbatim>\<open>repr\<close> of the missing key.
\<close>

datatype exc =
    KeyError string
  | TypeError string
  | AttributeError string
  | IndexError string
  | UnboundLocalError string
  | InvalidVersion string
  | ValidationError string
  | ClientError string
  | JSONDecodeError string

definition py_repr :: "string \<Rightarrow> string" where
  \<comment> \<open>the string between single quotes: \<^verbatim>\<open>repr\<close> of a string without quotes,
      backslashes or control characters\<close>
  "py_repr s = CHR 0x27 # s @ [CHR 0x27]"

fun show_nat :: "nat \<Rightarrow> string" where
  "show_nat n =
     (if n < 10 then [char_of (48 + n)]
      else show_nat (n div 10) @ [char_of (48 + n mod 10)])"

definition show_int :: "int \<Rightarrow> string" where
  \<comment> \<open>\<^verbatim>\<open>repr\<close> of an integer\<close>
  "show_int i = (if i < 0 then CHR ''-'' # show_nat (nat (- i)) else show_nat (nat i))"

fun str_exc :: "exc \<Rightarrow> string" where
  "str_exc (KeyError r) = r"
| "str_exc (TypeError m) = m"
| "str_exc (AttributeError m) = m"
| "str_exc (IndexError m) = m"
| "str_exc (UnboundLocalError m) = m"
| "str_exc (InvalidVersion v) = ''Invalid version: '' @ py_repr v"
| "str_exc (ValidationError m) = m"
| "str_exc (ClientError m) = m"
| "str_exc (JSONDecodeError m) = m"

definition bind_exc :: "exc + 'a \<Rightarrow> ('a \<Rightarrow> exc + 'b) \<Rightarrow> exc + 'b" where
  \<comment> \<open>Sequencing: an exception raised by the first step skips the rest.\<close>
  "bind_exc m f = (case m of Inl e \<Rightarrow> Inl e | Inr x \<Rightarrow> f x)"

definition lower_char :: "char \<Rightarrow> char" where
  "lower_char c =
     (let n = (of_char c :: nat)
      in if (65 \<le> n \<and> n \<le> 90) \<or> (192 \<le> n \<and> n \<le> 222 \<and> n \<noteq> 215)
         then char_of (n + 32) else c)"

definition lower :: "string \<Rightarrow> string" where
  \<comment> \<open>\<^verbatim>\<open>str.lower()\<close>\<close>
  "lower s = map lower_char s"

definition is_space :: "char \<Rightarrow> bool" where
  \<comment> \<open>The characters \<^verbatim>\<open>str.strip()\<close> removes.\<close>
  "is_space c =
     (let n = (of_char c :: nat)
      in (9 \<le> n \<and> n \<le> 13) \<or> (28 \<le> n \<and> n \<le> 32) \<or> n = 133 \<or> n = 160)"

definition strip :: "string \<Rightarrow> string" where
  \<comment> \<open>\<^verbatim>\<open>str.strip()\<close>\<close>
  "strip s = rev (dropWhile is_space (rev (dropWhile is_space s)))"

fun startswith :: "string \<Rightarrow> string \<Rightarrow> bool" where
  \<comment> \<open>\<^verbatim>\<open>s.startswith(p)\<close>, written \<open>startswith p s\<close>\<close>
  "startswith [] s = True"
| "startswith (p # ps) [] = False"
| "startswith (p # ps) (c # cs) = (p = c \<and> startswith ps cs)"

fun split_on :: "char \<Rightarrow> string \<Rightarrow> string list" where
  \<comment> \<open>\<^verbatim>\<open>s.split(sep)\<close> for a separator of one character; never the empty list.\<close>
  "split_on sep [] = [[]]"
| "split_on sep (c # cs) =
     (if c = sep then [] # split_on sep cs
      else (case split_on sep cs of
              [] \<Rightarrow> [[c]]
            | w # ws \<Rightarrow> (c # w) # ws))"

fun join :: "string \<Rightarrow> string list \<Rightarrow> string" where
  \<comment> \<open>\<^verbatim>\<open>sep.join(parts)\<close>\<close>
  "join sep [] = []"
| "join sep [w] = w"
| "join sep (w # v # ws) = w @ sep @ join sep (v # ws)"

section \<open>Version parsing\<close>

text \<open>
  \<^verbatim>\<open>version.parse\<close> belongs to the \<^verbatim>\<open>packaging\<close> library, which is not part of the
  repository. The resolver is therefore modelled over an arbitrary parser
  \<open>parse :: string \<Rightarrow> 'v option\<close> into a linearly ordered type of comparison
  keys: \<open>None\<close> stands for \<^verbatim>\<open>InvalidVersion\<close> being raised, and two version objects
  compare as their keys do. Every general theorem below holds for every such parser,
  also for one that never fails (releases of the library before 22.0 parse every
  string).

  For concrete inputs the theorems are instantiated with \<open>parse_release\<close>, which
  follows the library on final releases written as dot-separated decimal numbers:
  the key is the tuple of numbers without its trailing zeros, compared as Python
  compares tuples. It rejects every other string; the library itself accepts more
  forms (epochs, pre-, post- and development releases, local versions). The one
  unparsable string the concrete inputs below use, \<^verbatim>\<open>nightly\<close> or \<^verbatim>\<open>stable\<close>, has no
  digit, and the library (from 22.0) raises \<^verbatim>\<open>InvalidVersion\<close> for it as well.
\<close>

definition is_digit :: "char \<Rightarrow> bool" where
  "is_digit c = (let n = (of_char c :: nat) in 48 \<le> n \<and> n \<le> 57)"

definition decimal :: "string \<Rightarrow> nat option" where
  \<comment> \<open>\<^verbatim>\<open>int(s)\<close> for a string matching \<^verbatim>\<open>[0-9]+\<close>\<close>
  "decimal s =
     (if s \<noteq> [] \<and> list_all is_digit s
      then Some (foldl (\<lambda>n c. 10 * n + (of_char c - 48)) 0 s)
      else None)"

definition parse_release :: "string \<Rightarrow> nat list option" where
  "parse_release s =
     map_option (\<lambda>release. rev (dropWhile (\<lambda>n. n = 0) (rev release)))
       (those (map decimal (split_on CHR ''.'' s)))"

section \<open>The version resolver\<close>

subsection \<open>Filtering by the constraint (lines 221 to 241)\<close>

text \<open>
  A comparison branch is the list comprehension
  \<^verbatim>\<open>[v for v in all_versions if version.parse(v) OP version.parse(bound)]\<close>.
  For each candidate in turn the candidate is parsed, then the bound; the first
  string that does not parse raises and ends the comprehension.
\<close>

fun compare_each ::
  "(string \<Rightarrow> 'v option) \<Rightarrow> ('v \<Rightarrow> 'v \<Rightarrow> bool) \<Rightarrow> string \<Rightarrow> string list \<Rightarrow> exc + string list"
where
  "compare_each parse rel bound [] = Inr []"
| "compare_each parse rel bound (v # vs) =
     (case parse v of
        None \<Rightarrow> Inl (InvalidVersion v)
      | Some pv \<Rightarrow>
          (case parse bound of
             None \<Rightarrow> Inl (InvalidVersion bound)
           | Some pb \<Rightarrow>
               (case compare_each parse rel bound vs of
                  Inl e \<Rightarrow> Inl e
                | Inr rest \<Rightarrow> Inr (if rel pv pb then v # rest else rest))))"

text \<open>
  The \<^verbatim>\<open>if\<close>/\<^verbatim>\<open>elif\<close> chain of the resolver. \<open>Some xs\<close> is the new list a branch
  builds; \<open>None\<close> says that no branch was taken, so that \<^verbatim>\<open>compatible_versions\<close>
  is still the list it was bound to before the chain.
\<close>

definition select_matching ::
  "(string \<Rightarrow> 'v::linorder option) \<Rightarrow> string \<Rightarrow> string list \<Rightarrow> exc + string list option"
where
  "select_matching parse constraint all_versions =
     (if startswith ''>='' constraint then
        (let min_version = strip (drop 2 constraint)
         in map_sum id Some (compare_each parse (\<lambda>a b. a \<ge> b) min_version all_versions))
      else if startswith ''>'' constraint then
        (let min_version = strip (drop 1 constraint)
         in map_sum id Some (compare_each parse (\<lambda>a b. a > b) min_version all_versions))
      else if startswith ''<='' constraint then
        (let max_version = strip (drop 2 constraint)
         in map_sum id Some (compare_each parse (\<lambda>a b. a \<le> b) max_version all_versions))
      else if startswith ''<'' constraint then
        (let max_version = strip (drop 1 constraint)
         in map_sum id Some (compare_each parse (\<lambda>a b. a < b) max_version all_versions))
      else if startswith ''=='' constraint then
        (let exact_version = strip (drop 2 constraint)
         in Inr (Some (filter (\<lambda>v. v = exact_version) all_versions)))
      else if startswith ''~='' constraint then
        (let compatible_version = strip (drop 2 constraint);
             parts = split_on CHR ''.'' compatible_version;
             prefix = join ''.'' (butlast parts) @ ''.''
         in Inr (Some (filter (startswith prefix) all_versions)))
      else Inr None)"

subsection \<open>Ranking (lines 244 to 248)\<close>

text \<open>
  \<^verbatim>\<open>list.sort(key=..., reverse=True)\<close> first calls the key function on every
  element, in order; an exception there leaves the list as it was. It then sorts
  stably, and gets the descending order by reversing the list before and after an
  ascending stable sort, so that elements with equal keys keep their order.
\<close>

fun sort_keys :: "(string \<Rightarrow> 'v option) \<Rightarrow> string list \<Rightarrow> exc + 'v list" where
  "sort_keys parse [] = Inr []"
| "sort_keys parse (v # vs) =
     (case parse v of
        None \<Rightarrow> Inl (InvalidVersion v)
      | Some k \<Rightarrow>
          (case sort_keys parse vs of
             Inl e \<Rightarrow> Inl e
           | Inr ks \<Rightarrow> Inr (k # ks)))"

definition sort_reverse ::
  "(string \<Rightarrow> 'v::linorder option) \<Rightarrow> string list \<Rightarrow> exc + string list"
where
  "sort_reverse parse vs =
     (case sort_keys parse vs of
        Inl e \<Rightarrow> Inl e
      | Inr ks \<Rightarrow> Inr (map snd (rev (sort_key fst (rev (zip ks vs))))))"

subsection \<open>List objects\<close>

text \<open>
  Python lists are objects: \<^verbatim>\<open>compatible_versions = all_versions\<close> binds a second
  name to the same list, and \<^verbatim>\<open>sort\<close> works in place. The store maps the
  address of each list object to its contents.
\<close>

record store =
  objs :: "nat \<Rightarrow> string list option"
  fresh :: nat

definition empty_store :: store where
  "empty_store = \<lparr>objs = (\<lambda>_. None), fresh = 0\<rparr>"

definition alloc :: "store \<Rightarrow> string list \<Rightarrow> store \<times> nat" where
  \<comment> \<open>a new list object\<close>
  "alloc s xs = (\<lparr>objs = (objs s)(fresh s \<mapsto> xs), fresh = Suc (fresh s)\<rparr>, fresh s)"

definition deref :: "store \<Rightarrow> nat \<Rightarrow> string list" where
  \<comment> \<open>the contents of a list object\<close>
  "deref s a = (case objs s a of None \<Rightarrow> [] | Some xs \<Rightarrow> xs)"

definition assign :: "store \<Rightarrow> nat \<Rightarrow> string list \<Rightarrow> store" where
  \<comment> \<open>an in-place update of a list object\<close>
  "assign s a xs = s\<lparr>objs := (objs s)(a \<mapsto> xs)\<rparr>"

subsection \<open>The resolver (lines 213 to 248)\<close>

text \<open>
  \<open>all_versions\<close> is the address of the candidate list and \<open>latest_version\<close> the
  value the registry reports. The result is the store afterwards, the address bound
  to \<^verbatim>\<open>compatible_versions\<close> and the value of \<^verbatim>\<open>recommended_version\<close>
  (\<open>JNull\<close> is Python's \<^verbatim>\<open>None\<close>).
\<close>

definition resolve ::
  "(string \<Rightarrow> 'v::linorder option) \<Rightarrow> store \<Rightarrow> nat \<Rightarrow> json \<Rightarrow> string option
     \<Rightarrow> exc + (store \<times> nat \<times> json)"
where
  "resolve parse s all_versions latest_version version_constraint =
     (let compatible_versions = all_versions;
          recommended_version = latest_version
      in case version_constraint of
           None \<Rightarrow> Inr (s, compatible_versions, recommended_version)
         | Some constraint \<Rightarrow>
             if constraint = [] then Inr (s, compatible_versions, recommended_version)
             else
               (case select_matching parse constraint (deref s all_versions) of
                  Inl e \<Rightarrow> Inl e
                | Inr built \<Rightarrow>
                    (let (s1, compatible_versions) =
                           (case built of
                              None \<Rightarrow> (s, compatible_versions)
                            | Some xs \<Rightarrow> alloc s xs)
                     in if deref s1 compatible_versions \<noteq> [] then
                          (case sort_reverse parse (deref s1 compatible_versions) of
                             Inl e \<Rightarrow> Inl e
                           | Inr sorted_versions \<Rightarrow>
                               (case sorted_versions of
                                  [] \<Rightarrow> Inl (IndexError ''list index out of range'')
                                | best # _ \<Rightarrow>
                                    Inr (assign s1 compatible_versions sorted_versions,
                                         compatible_versions, JStr best)))
                        else Inr (s1, compatible_versions, JNull))))"

text \<open>
  The resolver as the operation runs it (lines 204 to 255): the candidate list is a
  fresh list object holding the registry's version names, and the result carries the
  contents of \<^verbatim>\<open>compatible_versions\<close> and the recommendation.
\<close>

definition resolution ::
  "(string \<Rightarrow> 'v::linorder option) \<Rightarrow> string list \<Rightarrow> json \<Rightarrow> string option
     \<Rightarrow> exc + (string list \<times> json)"
where
  "resolution parse versions latest_version version_constraint =
     (let (s0, all_versions) = alloc empty_store versions
      in case resolve parse s0 all_versions latest_version version_constraint of
           Inl e \<Rightarrow> Inl e
         | Inr (s1, compatible_versions, recommended_version) \<Rightarrow>
             Inr (deref s1 compatible_versions, recommended_version))"

section \<open>Operations on decoded JSON\<close>

fun type_name :: "json \<Rightarrow> string" where
  "type_name JNull = ''NoneType''"
| "type_name (JBool _) = ''bool''"
| "type_name (JNum _) = ''int''"
| "type_name (JStr _) = ''str''"
| "type_name (JArr _) = ''list''"
| "type_name (JObj _) = ''dict''"

fun truthy :: "json \<Rightarrow> bool" where
  \<comment> \<open>the truth value of \<^verbatim>\<open>if x:\<close> and \<^verbatim>\<open>x or y\<close>\<close>
  "truthy JNull = False"
| "truthy (JBool b) = b"
| "truthy (JNum n) = (n \<noteq> 0)"
| "truthy (JStr s) = (s \<noteq> [])"
| "truthy (JArr xs) = (xs \<noteq> [])"
| "truthy (JObj kvs) = (kvs \<noteq> [])"

fun py_eq :: "json \<Rightarrow> json \<Rightarrow> bool" where
  \<comment> \<open>\<^verbatim>\<open>==\<close>: a boolean equals the number 0 or 1, dictionaries compare without order\<close>
  "py_eq JNull JNull = True"
| "py_eq (JBool a) (JBool b) = (a = b)"
| "py_eq (JBool a) (JNum n) = (n = (if a then 1 else 0))"
| "py_eq (JNum n) (JBool a) = (n = (if a then 1 else 0))"
| "py_eq (JNum m) (JNum n) = (m = n)"
| "py_eq (JStr s) (JStr t) = (s = t)"
| "py_eq (JArr xs) (JArr ys) = list_all2 py_eq xs ys"
| "py_eq (JObj kvs) (JObj kws) =
     (length kvs = length kws \<and>
      list_all (\<lambda>(k, v). case map_of kws k of None \<Rightarrow> False | Some w \<Rightarrow> py_eq v w) kvs)"
| "py_eq _ _ = False"

fun contains_str :: "string \<Rightarrow> string \<Rightarrow> bool" where
  \<comment> \<open>\<^verbatim>\<open>t in s\<close> for two strings, written \<open>contains_str t s\<close>\<close>
  "contains_str t [] = (t = [])"
| "contains_str t (c # cs) = (startswith t (c # cs) \<or> contains_str t cs)"

fun py_contains :: "json \<Rightarrow> json \<Rightarrow> exc + bool" where
  \<comment> \<open>\<^verbatim>\<open>item in container\<close>, written \<open>py_contains item container\<close>\<close>
  "py_contains item (JObj kvs) =
     (case item of
        JStr k \<Rightarrow> Inr (k \<in> set (map fst kvs))
      | JArr _ \<Rightarrow> Inl (TypeError ''unhashable type: list'')
      | JObj _ \<Rightarrow> Inl (TypeError ''unhashable type: dict'')
      | _ \<Rightarrow> Inr False)"
| "py_contains item (JArr xs) = Inr (list_ex (py_eq item) xs)"
| "py_contains item (JStr s) =
     (case item of
        JStr t \<Rightarrow> Inr (contains_str t s)
      | _ \<Rightarrow>
          Inl (TypeError (py_repr ''in <string>'' @ '' requires string as left operand, not ''
                            @ type_name item)))"
| "py_contains item container =
     Inl (TypeError (''argument of type '' @ py_repr (type_name container)
                       @ '' is not iterable''))"

definition index_list :: "'a list \<Rightarrow> int \<Rightarrow> string \<Rightarrow> exc + 'a" where
  \<comment> \<open>\<^verbatim>\<open>xs[i]\<close>: a negative index counts from the end\<close>
  "index_list xs i what =
     (if 0 \<le> i \<and> i < int (length xs) then Inr (xs ! nat i)
      else if i < 0 \<and> - i \<le> int (length xs) then Inr (xs ! nat (int (length xs) + i))
      else Inl (IndexError (what @ '' index out of range'')))"

fun getitem :: "json \<Rightarrow> json \<Rightarrow> exc + json" where
  \<comment> \<open>\<^verbatim>\<open>container[key]\<close>\<close>
  "getitem (JObj kvs) key =
     (case key of
        JStr k \<Rightarrow>
          (case map_of kvs k of None \<Rightarrow> Inl (KeyError (py_repr k)) | Some v \<Rightarrow> Inr v)
      | JArr _ \<Rightarrow> Inl (TypeError ''unhashable type: list'')
      | JObj _ \<Rightarrow> Inl (TypeError ''unhashable type: dict'')
      | JNum i \<Rightarrow> Inl (KeyError (show_int i))
      | JBool b \<Rightarrow> Inl (KeyError (if b then ''True'' else ''False''))
      | JNull \<Rightarrow> Inl (KeyError ''None''))"
| "getitem (JArr xs) key =
     (case key of
        JNum i \<Rightarrow> index_list xs i ''list''
      | JBool b \<Rightarrow> index_list xs (if b then 1 else 0) ''list''
      | _ \<Rightarrow> Inl (TypeError (''list indices must be integers or slices, not '' @ type_name key)))"
| "getitem (JStr s) key =
     (case key of
        JNum i \<Rightarrow> map_sum id (\<lambda>c. JStr [c]) (index_list s i ''string'')
      | JBool b \<Rightarrow> map_sum id (\<lambda>c. JStr [c]) (index_list s (if b then 1 else 0) ''string'')
      | _ \<Rightarrow> Inl (TypeError (''string indices must be integers, not '' @ type_name key)))"
| "getitem container key =
     Inl (TypeError (py_repr (type_name container) @ '' object is not subscriptable''))"

fun py_get :: "json \<Rightarrow> string \<Rightarrow> json \<Rightarrow> exc + json" where
  \<comment> \<open>\<^verbatim>\<open>d.get(key, default)\<close>\<close>
  "py_get (JObj kvs) key dflt =
     Inr (case map_of kvs key of None \<Rightarrow> dflt | Some v \<Rightarrow> v)"
| "py_get d key dflt =
     Inl (AttributeError (py_repr (type_name d) @ '' object has no attribute ''
                            @ py_repr ''get''))"

fun py_keys :: "json \<Rightarrow> exc + string list" where
  \<comment> \<open>\<^verbatim>\<open>list(d.keys())\<close>\<close>
  "py_keys (JObj kvs) = Inr (map fst kvs)"
| "py_keys d =
     Inl (AttributeError (py_repr (type_name d) @ '' object has no attribute ''
                            @ py_repr ''keys''))"

fun py_iter :: "json \<Rightarrow> exc + json list" where
  \<comment> \<open>the elements a \<^verbatim>\<open>for\<close> loop visits\<close>
  "py_iter (JArr xs) = Inr xs"
| "py_iter (JStr s) = Inr (map (\<lambda>c. JStr [c]) s)"
| "py_iter (JObj kvs) = Inr (map (\<lambda>kv. JStr (fst kv)) kvs)"
| "py_iter x = Inl (TypeError (py_repr (type_name x) @ '' object is not iterable''))"

section \<open>The service\<close>

subsection \<open>Request and result schemas (lines 13 to 48)\<close>

text \<open>
  The six schema classes share \<^verbatim>\<open>package_name\<close> and \<^verbatim>\<open>package_manager\<close>, and the three
  results share \<^verbatim>\<open>error\<close>; the records below share them through a common parent,
  so that every field keeps its name. \<^verbatim>\<open>DependencyQuery\<close> has the fields of
  \<^verbatim>\<open>PackageQuery\<close> and \<^verbatim>\<open>depth\<close>. A result built without \<^verbatim>\<open>description\<close> or
  \<^verbatim>\<open>error\<close> holds their declared default \<^verbatim>\<open>None\<close> there. \<^verbatim>\<open>recommended_version\<close> is
  declared \<^verbatim>\<open>Optional[str]\<close> without a default; what a constructor call without it
  does is a parameter of the model, see \<open>error_VersionResult\<close> below.
\<close>

record Named =
  package_name :: string
  package_manager :: string

record PackageQuery = Named +
  version :: "string option"

record DependencyQuery = PackageQuery +
  depth :: "int option"

record VersionQuery = Named +
  version_constraint :: "string option"

record Result = Named +
  error :: "string option"

record PackageResult = Result +
  versions :: "string list"
  latest_version :: string
  description :: "string option"

record DependencyResult = Result +
  dependencies :: "(string \<times> json) list"

record VersionResult = Result +
  compatible_versions :: "string list"
  recommended_version :: "string option"

subsection \<open>Registries and the network\<close>

definition PACKAGE_REGISTRIES :: "(string \<times> string) list" where
  "PACKAGE_REGISTRIES =
     [(''pip'', ''https://pypi.org/pypi/{package}/json''),
      (''npm'', ''https://registry.npmjs.org/{package}'')]"

fun format_package :: "string \<Rightarrow> string \<Rightarrow> string" where
  \<comment> \<open>\<^verbatim>\<open>template.format(package=p)\<close> for a template with the one field \<^verbatim>\<open>{package}\<close>\<close>
  "format_package [] p = []"
| "format_package (c # cs) p =
     (if startswith ''{package}'' (c # cs) then p @ drop 8 cs
      else c # format_package cs p)"

text \<open>
  What one request to a registry does: the client raises, or a response arrives
  with a status and a body. \<^verbatim>\<open>response.json()\<close> raises on a body that is not JSON.
  The registries are a function from the URL to this outcome.
\<close>

datatype http =
    Transport_Failure exc
  | Response nat "exc + json"

subsection \<open>Building results\<close>

text \<open>
  The result classes validate their fields. How pydantic turns a decoded value into
  a \<^verbatim>\<open>str\<close> or a \<^verbatim>\<open>Dict\<close> field, and the text of the \<^verbatim>\<open>ValidationError\<close> it raises
  otherwise, differ between its releases, so both validators are parameters: \<open>Inl e\<close>
  is the exception raised. A field declared \<^verbatim>\<open>Optional[str]\<close> accepts \<^verbatim>\<open>None\<close>.
\<close>

definition optional_str :: "(json \<Rightarrow> exc + string) \<Rightarrow> json \<Rightarrow> exc + string option" where
  "optional_str str_validator v =
     (if v = JNull then Inr None
      else case str_validator v of
             Inl e \<Rightarrow> Inl e
           | Inr s \<Rightarrow> Inr (Some s))"

definition new_PackageResult ::
  "(json \<Rightarrow> exc + string) \<Rightarrow> string \<Rightarrow> string \<Rightarrow> string list \<Rightarrow> json \<Rightarrow> json \<Rightarrow> exc + PackageResult"
where
  "new_PackageResult str_validator name manager vs latest summary =
     (case str_validator latest of
        Inl e \<Rightarrow> Inl e
      | Inr latest \<Rightarrow>
          bind_exc (optional_str str_validator summary) (\<lambda>summary.
            Inr \<lparr>package_name = name, package_manager = manager, error = None,
                 versions = vs, latest_version = latest, description = summary\<rparr>))"

definition new_DependencyResult ::
  "(json \<Rightarrow> exc + (string \<times> json) list) \<Rightarrow> string \<Rightarrow> string \<Rightarrow> json \<Rightarrow> exc + DependencyResult"
where
  "new_DependencyResult dict_validator name manager deps =
     (case dict_validator deps of
        Inl e \<Rightarrow> Inl e
      | Inr deps \<Rightarrow>
          Inr \<lparr>package_name = name, package_manager = manager, error = None,
               dependencies = deps\<rparr>)"

definition new_VersionResult ::
  "(json \<Rightarrow> exc + string) \<Rightarrow> string \<Rightarrow> string \<Rightarrow> string list \<Rightarrow> json \<Rightarrow> exc + VersionResult"
where
  "new_VersionResult str_validator name manager compatible recommended =
     bind_exc (optional_str str_validator recommended)
       (\<lambda>recommended.
          Inr \<lparr>package_name = name, package_manager = manager, error = None,
               compatible_versions = compatible, recommended_version = recommended\<rparr>)"

text \<open>
  The three error results of the compatible-versions operation (lines 183, 195 and
  257) are the call
  \<^verbatim>\<open>VersionResult(package_name=..., package_manager=..., compatible_versions=[], error=...)\<close>,
  which gives no \<^verbatim>\<open>recommended_version\<close>, a field declared without a default. What
  the class does with such a call depends on the pydantic release and is the parameter
  \<open>omitted\<close>: \<open>None\<close> when the field then holds \<^verbatim>\<open>None\<close> (pydantic 1), \<open>Some e\<close>
  when the field is required and the constructor raises the \<^verbatim>\<open>ValidationError\<close> \<open>e\<close>
  (pydantic 2).
\<close>

definition error_VersionResult :: "exc option \<Rightarrow> string \<Rightarrow> string \<Rightarrow> string \<Rightarrow> exc + VersionResult" where
  "error_VersionResult omitted name manager message =
     (case omitted of
        Some e \<Rightarrow> Inl e
      | None \<Rightarrow>
          Inr \<lparr>package_name = name, package_manager = manager, error = Some message,
               compatible_versions = [], recommended_version = None\<rparr>)"

subsection \<open>Package info (lines 56 to 113)\<close>

definition get_package_info_body ::
  "(json \<Rightarrow> exc + string) \<Rightarrow> (string \<Rightarrow> http) \<Rightarrow> 'a PackageQuery_scheme \<Rightarrow> exc + PackageResult"
where
  \<comment> \<open>the \<^verbatim>\<open>try\<close> block\<close>
  "get_package_info_body str_validator fetch query =
     (let manager = lower (package_manager query)
      in case map_of PACKAGE_REGISTRIES manager of
           None \<Rightarrow>
             Inr \<lparr>package_name = package_name query, package_manager = manager,
                  error = Some (''Unsupported package manager: '' @ manager),
                  versions = [], latest_version = [], description = None\<rparr>
         | Some template \<Rightarrow>
             (case fetch (format_package template (package_name query)) of
                Transport_Failure e \<Rightarrow> Inl e
              | Response status body \<Rightarrow>
                  if status \<noteq> 200 then
                    Inr \<lparr>package_name = package_name query, package_manager = manager,
                         error = Some (''Package not found: '' @ package_name query),
                         versions = [], latest_version = [], description = None\<rparr>
                  else
                    bind_exc body (\<lambda>data.
                      if manager = ''pip'' then
                        bind_exc (getitem data (JStr ''releases'')) (\<lambda>releases.
                        bind_exc (py_keys releases) (\<lambda>vs.
                        bind_exc (getitem data (JStr ''info'')) (\<lambda>info.
                        bind_exc (getitem info (JStr ''version'')) (\<lambda>latest.
                        bind_exc (getitem data (JStr ''info'')) (\<lambda>info.
                        bind_exc (getitem info (JStr ''summary'')) (\<lambda>summary.
                          new_PackageResult str_validator (package_name query) manager
                            vs latest summary))))))
                      else if manager = ''npm'' then
                        bind_exc (getitem data (JStr ''versions'')) (\<lambda>releases.
                        bind_exc (py_keys releases) (\<lambda>vs.
                        bind_exc (getitem data (JStr ''dist-tags'')) (\<lambda>tags.
                        bind_exc (getitem tags (JStr ''latest'')) (\<lambda>latest.
                        bind_exc (getitem data (JStr ''description'')) (\<lambda>summary.
                          new_PackageResult str_validator (package_name query) manager
                            vs latest summary)))))
                      else
                        new_PackageResult str_validator (package_name query) manager
                          [] (JStr []) (JStr []))))"

definition get_package_info ::
  "(json \<Rightarrow> exc + string) \<Rightarrow> (string \<Rightarrow> http) \<Rightarrow> 'a PackageQuery_scheme \<Rightarrow> PackageResult"
where
  \<comment> \<open>the \<^verbatim>\<open>try\<close> block under its \<^verbatim>\<open>except Exception\<close> handler\<close>
  "get_package_info str_validator fetch query =
     (case get_package_info_body str_validator fetch query of
        Inr result \<Rightarrow> result
      | Inl e \<Rightarrow>
          \<lparr>package_name = package_name query, package_manager = package_manager query,
           error = Some (str_exc e),
           versions = [], latest_version = [], description = None\<rparr>)"

subsection \<open>Dependencies (lines 115 to 175)\<close>

definition re_match_requirement :: "string \<Rightarrow> (string \<times> string option) option" where
  \<comment> \<open>\<^verbatim>\<open>re.match(r"([^<>=~!]+)(.+)?", dep)\<close>: the two groups, or no match.
      The dot of a pattern does not match a line feed.\<close>
  "re_match_requirement dep =
     (let name = takeWhile (\<lambda>c. c \<notin> set ''<>=~!'') dep;
          rest = dropWhile (\<lambda>c. c \<notin> set ''<>=~!'') dep;
          spec = takeWhile (\<lambda>c. c \<noteq> CHR 0x0A) rest
      in if name = [] then None
         else Some (name, if spec = [] then None else Some spec))"

fun requires_dist_loop :: "json list \<Rightarrow> (string \<times> json) list \<Rightarrow> exc + (string \<times> json) list" where
  \<comment> \<open>the \<^verbatim>\<open>for dep in requires_dist\<close> loop, filling the dictionary\<close>
  "requires_dist_loop [] deps = Inr deps"
| "requires_dist_loop (dep # rest) deps =
     (case dep of
        JStr d \<Rightarrow>
          (case re_match_requirement d of
             None \<Rightarrow> requires_dist_loop rest deps
           | Some (name, spec) \<Rightarrow>
               (let dep_name = strip name;
                    dep_version = (case spec of None \<Rightarrow> [] | Some v \<Rightarrow> v)
                in requires_dist_loop rest (AList.update dep_name (JStr dep_version) deps)))
      | _ \<Rightarrow>
          Inl (TypeError (''expected string or bytes-like object, got '' @ py_repr (type_name dep))))"

definition version_or :: "string option \<Rightarrow> exc + json \<Rightarrow> exc + json" where
  \<comment> \<open>\<^verbatim>\<open>query.version or other\<close>: the other side is only evaluated for a missing or
      empty version\<close>
  "version_or v other =
     (case v of
        None \<Rightarrow> other
      | Some s \<Rightarrow> if s = [] then other else Inr (JStr s))"

definition extract_dependencies :: "string \<Rightarrow> string option \<Rightarrow> json \<Rightarrow> exc + json" where
  \<comment> \<open>lines 143 to 162: the value of \<^verbatim>\<open>dependencies\<close>\<close>
  "extract_dependencies manager wanted data =
     (if manager = ''pip'' then
        bind_exc (version_or wanted
                    (bind_exc (getitem data (JStr ''info'')) (\<lambda>info.
                       getitem info (JStr ''version'')))) (\<lambda>version_to_check.
        bind_exc (getitem data (JStr ''releases'')) (\<lambda>releases.
        bind_exc (py_contains version_to_check releases) (\<lambda>known.
          if known then
            bind_exc (getitem data (JStr ''info'')) (\<lambda>info.
            bind_exc (py_get info ''requires_dist'' (JArr [])) (\<lambda>requires_dist.
              if truthy requires_dist then
                bind_exc (py_iter requires_dist) (\<lambda>deps.
                bind_exc (requires_dist_loop deps []) (\<lambda>filled. Inr (JObj filled)))
              else Inr (JObj [])))
          else Inr (JObj []))))
      else if manager = ''npm'' then
        bind_exc (version_or wanted
                    (bind_exc (getitem data (JStr ''dist-tags'')) (\<lambda>tags.
                       getitem tags (JStr ''latest'')))) (\<lambda>version_to_check.
        bind_exc (getitem data (JStr ''versions'')) (\<lambda>releases.
        bind_exc (py_contains version_to_check releases) (\<lambda>known.
          if known then
            bind_exc (getitem data (JStr ''versions'')) (\<lambda>releases.
            bind_exc (getitem releases version_to_check) (\<lambda>release.
              py_get release ''dependencies'' (JObj [])))
          else Inr (JObj []))))
      else Inr (JObj []))"

definition get_dependencies_body ::
  "(json \<Rightarrow> exc + (string \<times> json) list) \<Rightarrow> (string \<Rightarrow> http) \<Rightarrow> 'a PackageQuery_scheme
     \<Rightarrow> exc + DependencyResult"
where
  "get_dependencies_body dict_validator fetch query =
     (let manager = lower (package_manager query)
      in case map_of PACKAGE_REGISTRIES manager of
           None \<Rightarrow>
             Inr \<lparr>package_name = package_name query, package_manager = manager,
                  error = Some (''Unsupported package manager: '' @ manager),
                  dependencies = []\<rparr>
         | Some template \<Rightarrow>
             (case fetch (format_package template (package_name query)) of
                Transport_Failure e \<Rightarrow> Inl e
              | Response status body \<Rightarrow>
                  if status \<noteq> 200 then
                    Inr \<lparr>package_name = package_name query, package_manager = manager,
                         error = Some (''Package not found: '' @ package_name query),
                         dependencies = []\<rparr>
                  else
                    bind_exc body (\<lambda>data.
                    bind_exc (extract_dependencies manager (version query) data) (\<lambda>deps.
                      new_DependencyResult dict_validator (package_name query) manager deps))))"

definition get_dependencies ::
  "(json \<Rightarrow> exc + (string \<times> json) list) \<Rightarrow> (string \<Rightarrow> http) \<Rightarrow> 'a PackageQuery_scheme
     \<Rightarrow> DependencyResult"
where
  "get_dependencies dict_validator fetch query =
     (case get_dependencies_body dict_validator fetch query of
        Inr result \<Rightarrow> result
      | Inl e \<Rightarrow>
          \<lparr>package_name = package_name query, package_manager = package_manager query,
           error = Some (str_exc e), dependencies = []\<rparr>)"

subsection \<open>Compatible versions (lines 177 to 262)\<close>

definition candidate_versions :: "string \<Rightarrow> json \<Rightarrow> exc + (string list \<times> json)" where
  \<comment> \<open>lines 204 to 211 and the read of \<^verbatim>\<open>latest_version\<close> in line 215\<close>
  "candidate_versions manager data =
     (if manager = ''pip'' then
        bind_exc (getitem data (JStr ''releases'')) (\<lambda>releases.
        bind_exc (py_keys releases) (\<lambda>vs.
        bind_exc (getitem data (JStr ''info'')) (\<lambda>info.
        bind_exc (getitem info (JStr ''version'')) (\<lambda>latest. Inr (vs, latest)))))
      else if manager = ''npm'' then
        bind_exc (getitem data (JStr ''versions'')) (\<lambda>releases.
        bind_exc (py_keys releases) (\<lambda>vs.
        bind_exc (getitem data (JStr ''dist-tags'')) (\<lambda>tags.
        bind_exc (getitem tags (JStr ''latest'')) (\<lambda>latest. Inr (vs, latest)))))
      else Inl (UnboundLocalError ''latest_version''))"

definition get_compatible_versions_body ::
  "(string \<Rightarrow> 'v::linorder option) \<Rightarrow> (json \<Rightarrow> exc + string) \<Rightarrow> exc option
     \<Rightarrow> (string \<Rightarrow> http) \<Rightarrow> 'a VersionQuery_scheme \<Rightarrow> exc + VersionResult"
where
  \<comment> \<open>the \<^verbatim>\<open>try\<close> block; an exception of a constructor call in it is raised in it\<close>
  "get_compatible_versions_body parse str_validator omitted fetch query =
     (let manager = lower (package_manager query)
      in case map_of PACKAGE_REGISTRIES manager of
           None \<Rightarrow>
             error_VersionResult omitted (package_name query) manager
               (''Unsupported package manager: '' @ manager)
         | Some template \<Rightarrow>
             (case fetch (format_package template (package_name query)) of
                Transport_Failure e \<Rightarrow> Inl e
              | Response status body \<Rightarrow>
                  if status \<noteq> 200 then
                    error_VersionResult omitted (package_name query) manager
                      (''Package not found: '' @ package_name query)
                  else
                    bind_exc body (\<lambda>data.
                    bind_exc (candidate_versions manager data) (\<lambda>(vs, latest).
                    bind_exc (resolution parse vs latest (version_constraint query))
                      (\<lambda>(compatible, recommended).
                         new_VersionResult str_validator (package_name query) manager
                           compatible recommended)))))"

definition get_compatible_versions ::
  "(string \<Rightarrow> 'v::linorder option) \<Rightarrow> (json \<Rightarrow> exc + string) \<Rightarrow> exc option
     \<Rightarrow> (string \<Rightarrow> http) \<Rightarrow> 'a VersionQuery_scheme \<Rightarrow> exc + VersionResult"
where
  \<comment> \<open>the \<^verbatim>\<open>try\<close> block under its \<^verbatim>\<open>except Exception\<close> handler; \<open>Inl\<close> is an
      exception that the handler itself raises and that leaves the operation\<close>
  "get_compatible_versions parse str_validator omitted fetch query =
     (case get_compatible_versions_body parse str_validator omitted fetch query of
        Inr result \<Rightarrow> Inr result
      | Inl e \<Rightarrow>
          error_VersionResult omitted (package_name query) (package_manager query)
            (str_exc e))"

section \<open>Notions of the specification\<close>

text \<open>
  The specification speaks of recognised operators, of the candidates that remain
  after filtering, of a list ordered by parsed version, descending, and of requests
  that fail. These definitions follow its words; the theorems compare them with the
  code above.
\<close>

definition recognised :: "string \<Rightarrow> bool" where
  \<comment> \<open>the constraint starts with one of the six operators\<close>
  "recognised constraint =
     list_ex (\<lambda>operator. startswith operator constraint)
       [''>='', ''>'', ''<='', ''<'', ''=='', ''~='']"

definition matches_of :: "string list \<Rightarrow> string list option \<Rightarrow> string list" where
  \<comment> \<open>the candidates that remain after the filter: the list a branch built, or all\<close>
  "matches_of all_versions built = (case built of None \<Rightarrow> all_versions | Some xs \<Rightarrow> xs)"

definition descending :: "(string \<Rightarrow> 'v::linorder option) \<Rightarrow> string list \<Rightarrow> string list" where
  \<comment> \<open>the versions ordered by parsed version, greatest first, equal ones in their order\<close>
  "descending parse vs = rev (sort_key (\<lambda>v. the (parse v)) (rev vs))"

definition failed_request :: "(string \<Rightarrow> http) \<Rightarrow> 'a Named_scheme \<Rightarrow> bool" where
  \<comment> \<open>unsupported registry, transport failure, package not found, or a body that is not JSON\<close>
  "failed_request fetch query =
     (case map_of PACKAGE_REGISTRIES (lower (package_manager query)) of
        None \<Rightarrow> True
      | Some template \<Rightarrow>
          (case fetch (format_package template (package_name query)) of
             Transport_Failure e \<Rightarrow> True
           | Response status body \<Rightarrow> status \<noteq> 200 \<or> isl body))"

subsection \<open>A sample environment\<close>

text \<open>
  Concrete inputs for the general theorems: validators that accept exactly the values
  of the declared type, a registry that answers every request with one document, and
  a document of the Python package index listing the given releases.
\<close>

fun str_only :: "json \<Rightarrow> exc + string" where
  "str_only (JStr s) = Inr s"
| "str_only _ = Inl (ValidationError ''Input should be a valid string'')"

fun dict_only :: "json \<Rightarrow> exc + (string \<times> json) list" where
  "dict_only (JObj kvs) = Inr kvs"
| "dict_only _ = Inl (ValidationError ''Input should be a valid dictionary'')"

definition serving :: "json \<Rightarrow> string \<Rightarrow> http" where
  "serving document url = Response 200 (Inr document)"

definition pypi_document :: "string list \<Rightarrow> string \<Rightarrow> json" where
  "pypi_document vs latest =
     JObj [(''info'', JObj [(''version'', JStr latest), (''summary'', JStr ''sample'')]),
           (''releases'', JObj (map (\<lambda>v. (v, JArr [])) vs))]"

section \<open>Properties of the ranking\<close>

lemma startswith_prefix: "startswith p s \<longleftrightarrow> prefix p s"
  by (induction p s rule: startswith.induct) auto

lemma sort_keys_Inl:
  "sort_keys parse vs = Inl e \<Longrightarrow> \<exists>v\<in>set vs. e = InvalidVersion v \<and> parse v = None"
  by (induction vs) (auto split: option.splits sum.splits)

lemma sort_keys_total:
  "(\<forall>v\<in>set vs. parse v \<noteq> None) \<Longrightarrow> sort_keys parse vs = Inr (map (\<lambda>v. the (parse v)) vs)"
  by (induction vs) (auto split: option.splits sum.splits)

lemma sort_keys_Inr_parsed:
  "sort_keys parse vs = Inr ks \<Longrightarrow> v \<in> set vs \<Longrightarrow> parse v \<noteq> None"
  by (induction vs arbitrary: ks) (auto split: option.splits sum.splits)

lemma sort_keys_fails:
  assumes "\<exists>v\<in>set vs. parse v = None"
  shows "\<exists>e. sort_keys parse vs = Inl e"
proof (cases "sort_keys parse vs")
  case (Inl e)
  then show ?thesis by blast
next
  case (Inr ks)
  then show ?thesis using assms sort_keys_Inr_parsed[of parse vs ks] by blast
qed

lemma insort_key_tagged:
  "insort_key fst (f x, x) (map (\<lambda>v. (f v, v)) ys) = map (\<lambda>v. (f v, v)) (insort_key f x ys)"
  by (induction ys) auto

lemma sort_key_tagged:
  "sort_key fst (map (\<lambda>v. (f v, v)) xs) = map (\<lambda>v. (f v, v)) (sort_key f xs)"
  by (induction xs) (auto simp: insort_key_tagged)

lemma zip_map_self: "zip (map f vs) vs = map (\<lambda>v. (f v, v)) vs"
  by (induction vs) auto

lemma sort_reverse_total:
  assumes "\<forall>v\<in>set vs. parse v \<noteq> None"
  shows "sort_reverse parse vs = Inr (descending parse vs)"
proof -
  have "rev (map (\<lambda>v. (the (parse v), v)) vs) = map (\<lambda>v. (the (parse v), v)) (rev vs)"
    by (simp add: rev_map)
  then show ?thesis
    using assms
    by (simp add: sort_reverse_def descending_def sort_keys_total zip_map_self sort_key_tagged rev_map o_def)
qed

lemma sort_reverse_Inl:
  "sort_reverse parse vs = Inl e \<Longrightarrow> \<exists>v\<in>set vs. e = InvalidVersion v \<and> parse v = None"
  by (auto simp: sort_reverse_def split: sum.splits dest: sort_keys_Inl)

lemma sort_reverse_fails:
  "\<exists>v\<in>set vs. parse v = None \<Longrightarrow> \<exists>v\<in>set vs. parse v = None \<and> sort_reverse parse vs = Inl (InvalidVersion v)"
proof -
  assume "\<exists>v\<in>set vs. parse v = None"
  then obtain e where "sort_keys parse vs = Inl e" using sort_keys_fails by blast
  then show ?thesis using sort_keys_Inl[of parse vs e] by (auto simp: sort_reverse_def)
qed

lemma mset_descending: "mset (descending parse vs) = mset vs"
  by (simp add: descending_def)

lemma set_descending: "set (descending parse vs) = set vs"
  by (simp add: descending_def)

lemma length_descending: "length (descending parse vs) = length vs"
  by (simp add: descending_def)

lemma descending_Nil: "descending parse vs = [] \<longleftrightarrow> vs = []"
  using length_descending[of parse vs] by (cases vs; cases "descending parse vs") auto

lemma descending_wrt:
  "sorted_wrt (\<lambda>a b. the (parse b) \<le> the (parse a)) (descending parse vs)"
proof -
  have "sorted_wrt (\<lambda>a b. a \<le> b) (map (\<lambda>v. the (parse v)) (sort_key (\<lambda>v. the (parse v)) (rev vs)))"
    using sorted_sort_key by auto
  then have "sorted_wrt (\<lambda>a b. the (parse a) \<le> the (parse b)) (sort_key (\<lambda>v. the (parse v)) (rev vs))"
    by (simp add: sorted_wrt_map)
  then show ?thesis
    by (simp add: descending_def sorted_wrt_rev)
qed

lemma hd_descending_greatest:
  assumes "v \<in> set vs"
  shows "the (parse v) \<le> the (parse (hd (descending parse vs)))"
proof -
  have "vs \<noteq> []" using assms by auto
  then have "descending parse vs \<noteq> []" by (simp add: descending_Nil)
  then obtain b bs where d: "descending parse vs = b # bs"
    by (cases "descending parse vs") auto
  have "v \<in> set (descending parse vs)"
    using assms by (simp add: set_descending)
  then have mem: "v = b \<or> v \<in> set bs"
    by (simp add: d)
  have "sorted_wrt (\<lambda>a b. the (parse b) \<le> the (parse a)) (b # bs)"
    using descending_wrt[of parse vs] by (simp add: d)
  then have "\<forall>x\<in>set bs. the (parse x) \<le> the (parse b)" by simp
  with mem have "the (parse v) \<le> the (parse b)" by auto
  then show ?thesis by (simp add: d)
qed

lemma descending_stable:
  "filter (\<lambda>v. the (parse v) = k) (descending parse vs) = filter (\<lambda>v. the (parse v) = k) vs"
proof -
  have "filter (\<lambda>v. the (parse v) = k) (descending parse vs)
        = rev (filter (\<lambda>v. the (parse v) = k) (sort_key (\<lambda>v. the (parse v)) (rev vs)))"
    by (simp add: descending_def rev_filter)
  also have "\<dots> = rev (filter (\<lambda>v. the (parse v) = k) (rev vs))"
    by (simp add: sort_key_stable)
  finally show ?thesis by (simp add: rev_filter)
qed

section \<open>Properties of the filter and of the resolver\<close>


lemma compare_each_Inr:
  "compare_each parse rel bound vs = Inr ys \<Longrightarrow> v \<in> set vs \<Longrightarrow> parse v \<noteq> None"
  by (induction vs arbitrary: ys) (auto split: option.splits sum.splits)

lemma compare_each_subset:
  "compare_each parse rel bound vs = Inr ys \<Longrightarrow> set ys \<subseteq> set vs"
  by (induction vs arbitrary: ys) (auto split: option.splits sum.splits if_splits)

lemma compare_each_Inl:
  "compare_each parse rel bound vs = Inl e \<Longrightarrow>
     \<exists>s. e = InvalidVersion s \<and> parse s = None \<and> (s \<in> set vs \<or> s = bound)"
  by (induction vs) (auto split: option.splits sum.splits)

lemma compare_each_fails:
  assumes "\<exists>v\<in>set vs. parse v = None"
  shows "\<exists>e. compare_each parse rel bound vs = Inl e"
proof (cases "compare_each parse rel bound vs")
  case (Inl e)
  then show ?thesis by blast
next
  case (Inr ys)
  then show ?thesis using assms compare_each_Inr[of parse rel bound vs ys] by blast
qed





lemma select_eq:
  "select_matching parse (''=='' @ rest) vs =
     Inr (Some (filter (\<lambda>v. v = strip rest) vs))"
  by (simp add: select_matching_def)

lemma select_compatible:
  "select_matching parse (''~='' @ rest) vs =
     Inr (Some (filter (startswith (join ''.'' (butlast (split_on CHR ''.'' (strip rest))) @ ''.'')) vs))"
  by (simp add: select_matching_def Let_def)

lemma select_unrecognised:
  "\<not> recognised constraint \<Longrightarrow> select_matching parse constraint vs = Inr None"
  by (simp add: select_matching_def recognised_def)

lemma resolution_absent: "resolution parse vs latest None = Inr (vs, latest)"
  by (simp add: resolution_def resolve_def alloc_def deref_def empty_store_def)

lemma resolution_empty: "resolution parse vs latest (Some []) = Inr (vs, latest)"
  by (simp add: resolution_def resolve_def alloc_def deref_def empty_store_def)

lemma resolution_Some:
  assumes "constraint \<noteq> []"
  shows "resolution parse vs latest (Some constraint) =
     (case select_matching parse constraint vs of
        Inl e \<Rightarrow> Inl e
      | Inr built \<Rightarrow>
          (if matches_of vs built = [] then Inr ([], JNull)
           else case sort_reverse parse (matches_of vs built) of
                  Inl e \<Rightarrow> Inl e
                | Inr [] \<Rightarrow> Inl (IndexError ''list index out of range'')
                | Inr (best # others) \<Rightarrow> Inr (best # others, JStr best)))"
  using assms
  by (auto simp: resolution_def resolve_def alloc_def deref_def assign_def empty_store_def
        matches_of_def split: sum.splits option.splits list.splits)

lemma resolution_ranked:
  assumes "constraint \<noteq> []"
    and "select_matching parse constraint vs = Inr built"
    and "matches_of vs built \<noteq> []"
    and "\<forall>v\<in>set (matches_of vs built). parse v \<noteq> None"
  shows "resolution parse vs latest (Some constraint) =
           Inr (descending parse (matches_of vs built),
                JStr (hd (descending parse (matches_of vs built))))"
proof -
  let ?ms = "matches_of vs built"
  have "descending parse ?ms \<noteq> []" using assms(3) by (simp add: descending_Nil)
  then obtain best others where d: "descending parse ?ms = best # others"
    by (cases "descending parse ?ms") auto
  have "sort_reverse parse ?ms = Inr (best # others)"
    using sort_reverse_total[OF assms(4)] d by simp
  then show ?thesis
    using assms(1,2,3) d by (simp add: resolution_Some)
qed

lemma resolution_no_match:
  assumes "constraint \<noteq> []"
    and "select_matching parse constraint vs = Inr built"
    and "matches_of vs built = []"
  shows "resolution parse vs latest (Some constraint) = Inr ([], JNull)"
  using assms by (simp add: resolution_Some)

lemma resolution_unparsable_match:
  assumes "constraint \<noteq> []"
    and "select_matching parse constraint vs = Inr built"
    and "\<exists>v\<in>set (matches_of vs built). parse v = None"
  shows "\<exists>v\<in>set (matches_of vs built). parse v = None \<and>
           resolution parse vs latest (Some constraint) = Inl (InvalidVersion v)"
proof -
  have ne: "matches_of vs built \<noteq> []" using assms(3) by auto
  obtain v where v: "v \<in> set (matches_of vs built)" "parse v = None"
    "sort_reverse parse (matches_of vs built) = Inl (InvalidVersion v)"
    using sort_reverse_fails[OF assms(3)] by blast
  have "resolution parse vs latest (Some constraint) = Inl (InvalidVersion v)"
    using assms(1,2) ne v(3) by (simp add: resolution_Some)
  with v show ?thesis by blast
qed

lemma split_on_nonempty: "split_on sep s \<noteq> []"
  by (induction s) (auto split: list.splits)

lemma split_on_no_sep: "sep \<notin> set s \<Longrightarrow> split_on sep s = [s]"
  by (induction s) auto

lemma split_on_last:
  "sep \<notin> set l \<Longrightarrow> split_on sep (p @ sep # l) = split_on sep p @ [l]"
proof (induction p)
  case Nil
  then show ?case by (simp add: split_on_no_sep)
next
  case (Cons c cs)
  obtain w ws where "split_on sep cs = w # ws"
    using split_on_nonempty[of sep cs] by (cases "split_on sep cs") auto
  with Cons show ?case by simp
qed

lemma join_split_on: "join [sep] (split_on sep s) = s"
proof (induction s)
  case Nil
  then show ?case by simp
next
  case (Cons c cs)
  obtain w ws where sp: "split_on sep cs = w # ws"
    using split_on_nonempty[of sep cs] by (cases "split_on sep cs") auto
  show ?case
  proof (cases "c = sep")
    case True
    with Cons sp show ?thesis by simp
  next
    case False
    with Cons sp show ?thesis by (cases ws) auto
  qed
qed

lemma required_prefix_dotted:
  assumes "CHR ''.'' \<notin> set l"
  shows "join ''.'' (butlast (split_on CHR ''.'' (p @ ''.'' @ l))) @ ''.'' = p @ ''.''"
proof -
  have "split_on CHR ''.'' (p @ ''.'' @ l) = split_on CHR ''.'' p @ [l]"
    using split_on_last[OF assms, of p] by simp
  then show ?thesis by (simp add: join_split_on)
qed

lemma required_prefix_plain:
  assumes "CHR ''.'' \<notin> set w"
  shows "join ''.'' (butlast (split_on CHR ''.'' w)) @ ''.'' = ''.''"
  using assms by (simp add: split_on_no_sep)

lemma startswith_eq_prefix: "startswith p = prefix p"
  by (rule ext) (rule startswith_prefix)

lemma all_equal_same_list:
  assumes "mset ys = mset ms" and "\<forall>m\<in>set ms. m = x"
  shows "ys = ms"
proof -
  have "set ys = set ms" using assms(1) by (rule mset_eq_setD)
  then have "\<forall>y\<in>set ys. y = x" using assms(2) by simp
  then have "ys = replicate (length ys) x" by (simp add: replicate_length_same)
  also have "length ys = length ms" using assms(1) by (rule mset_eq_length)
  also have "replicate (length ms) x = ms" using assms(2) by (simp add: replicate_length_same)
  finally show ?thesis .
qed

lemma sort_reverse_Inr:
  assumes "sort_reverse parse vs = Inr ys"
  shows "ys = descending parse vs"
proof -
  obtain ks where "sort_keys parse vs = Inr ks"
    using assms by (auto simp: sort_reverse_def split: sum.splits)
  then have "\<forall>v\<in>set vs. parse v \<noteq> None"
    using sort_keys_Inr_parsed[of parse vs ks] by blast
  then show ?thesis using assms sort_reverse_total[of vs parse] by simp
qed

lemma recognised_builds:
  assumes "recognised constraint"
  shows "select_matching parse constraint vs \<noteq> Inr None"
  using assms
  by (auto simp: select_matching_def recognised_def Let_def map_sum_def split: sum.splits)

lemma resolve_keeps_candidates:
  assumes "resolve parse s a latest constraint = Inr (s1, compatible, recommended)"
    and "a < fresh s"
    and "case constraint of None \<Rightarrow> True | Some c \<Rightarrow> c = [] \<or> recognised c"
  shows "objs s1 a = objs s a"
proof (cases constraint)
  case None
  then show ?thesis using assms(1) by (simp add: resolve_def)
next
  case (Some c)
  show ?thesis
  proof (cases "c = []")
    case True
    then show ?thesis using assms(1) Some by (simp add: resolve_def)
  next
    case False
    then have "recognised c" using assms(3) Some by simp
    then have nb: "select_matching parse c (deref s a) \<noteq> Inr None"
      by (rule recognised_builds)
    show ?thesis
      using assms(1,2) Some False nb
      by (auto simp: resolve_def alloc_def assign_def Let_def
            split: sum.splits option.splits list.splits if_splits)
  qed
qed

section \<open>Properties of the operations\<close>

lemma bind_exc_Inl: "bind_exc (Inl e) f = Inl e"
  by (simp add: bind_exc_def)

lemma bind_exc_Inr: "bind_exc (Inr x) f = f x"
  by (simp add: bind_exc_def)

lemma bind_exc_InrD: "bind_exc m f = Inr r \<Longrightarrow> \<exists>x. m = Inr x \<and> f x = Inr r"
  by (cases m) (simp_all add: bind_exc_def)

lemma new_PackageResult_named:
  "new_PackageResult sv n m vs l d = Inr r \<Longrightarrow>
     package_name r = n \<and> package_manager r = m \<and> error r = None"
  by (auto simp: new_PackageResult_def bind_exc_def split: option.splits sum.splits)

lemma new_DependencyResult_named:
  "new_DependencyResult dv n m d = Inr r \<Longrightarrow>
     package_name r = n \<and> package_manager r = m \<and> error r = None"
  by (auto simp: new_DependencyResult_def split: sum.splits)

lemma new_VersionResult_named:
  "new_VersionResult sv n m c rv = Inr r \<Longrightarrow>
     package_name r = n \<and> package_manager r = m \<and> error r = None"
  by (auto simp: new_VersionResult_def bind_exc_def split: option.splits sum.splits)

lemma package_info_unsupported:
  assumes "map_of PACKAGE_REGISTRIES (lower (package_manager q)) = None"
  shows "get_package_info_body sv fetch q =
           Inr \<lparr>package_name = package_name q, package_manager = lower (package_manager q),
                error = Some (''Unsupported package manager: '' @ lower (package_manager q)),
                versions = [], latest_version = [], description = None\<rparr>"
  using assms by (simp add: get_package_info_body_def Let_def)

lemma package_info_transport:
  assumes "map_of PACKAGE_REGISTRIES (lower (package_manager q)) = Some template"
    and "fetch (format_package template (package_name q)) = Transport_Failure e"
  shows "get_package_info_body sv fetch q = Inl e"
  using assms by (simp add: get_package_info_body_def Let_def)

lemma package_info_not_found:
  assumes "map_of PACKAGE_REGISTRIES (lower (package_manager q)) = Some template"
    and "fetch (format_package template (package_name q)) = Response status body"
    and "status \<noteq> 200"
  shows "get_package_info_body sv fetch q =
           Inr \<lparr>package_name = package_name q, package_manager = lower (package_manager q),
                error = Some (''Package not found: '' @ package_name q),
                versions = [], latest_version = [], description = None\<rparr>"
  using assms by (simp add: get_package_info_body_def Let_def)

lemma package_info_undecodable:
  assumes "map_of PACKAGE_REGISTRIES (lower (package_manager q)) = Some template"
    and "fetch (format_package template (package_name q)) = Response 200 (Inl e)"
  shows "get_package_info_body sv fetch q = Inl e"
  using assms by (simp add: get_package_info_body_def Let_def bind_exc_Inl)

lemma package_info_decoded:
  assumes "map_of PACKAGE_REGISTRIES (lower (package_manager q)) = Some template"
    and "fetch (format_package template (package_name q)) = Response 200 (Inr data)"
    and "get_package_info_body sv fetch q = Inr r"
  shows "package_name r = package_name q \<and> package_manager r = lower (package_manager q)
         \<and> error r = None"
  using assms
  by (auto simp: get_package_info_body_def Let_def bind_exc_Inr split: if_splits
        dest!: bind_exc_InrD dest: new_PackageResult_named)

lemma package_info_handled:
  assumes "get_package_info_body sv fetch q = Inl e"
  shows "get_package_info sv fetch q =
           \<lparr>package_name = package_name q, package_manager = package_manager q,
            error = Some (str_exc e), versions = [], latest_version = [], description = None\<rparr>"
  using assms by (simp add: get_package_info_def)

lemma package_info_returned:
  assumes "get_package_info_body sv fetch q = Inr r"
  shows "get_package_info sv fetch q = r"
  using assms by (simp add: get_package_info_def)

lemma package_info_result:
  "package_name (get_package_info sv fetch q) = package_name q
   \<and> package_manager (get_package_info sv fetch q) \<in> {package_manager q, lower (package_manager q)}
   \<and> (failed_request fetch q \<or> isl (get_package_info_body sv fetch q) \<longrightarrow>
        error (get_package_info sv fetch q) \<noteq> None \<and> versions (get_package_info sv fetch q) = [] \<and> latest_version (get_package_info sv fetch q) = [] \<and> description (get_package_info sv fetch q) = None)"
proof (cases "get_package_info_body sv fetch q")
  case (Inl e)
  show ?thesis unfolding package_info_handled[OF Inl] by simp
next
  case (Inr r)
  note ret = package_info_returned[OF Inr]
  show ?thesis
  proof (cases "map_of PACKAGE_REGISTRIES (lower (package_manager q))")
    case None
    have "r = \<lparr>package_name = package_name q, package_manager = lower (package_manager q),
                error = Some (''Unsupported package manager: '' @ lower (package_manager q)),
                versions = [], latest_version = [], description = None\<rparr>"
      using package_info_unsupported[where fetch = fetch and q = q and sv = sv, OF None] Inr by simp
    then show ?thesis unfolding ret by simp
  next
    case (Some template)
    show ?thesis
    proof (cases "fetch (format_package template (package_name q))")
      case (Transport_Failure e)
      then show ?thesis
        using package_info_transport[where fetch = fetch and q = q and sv = sv, OF Some Transport_Failure] Inr
        by simp
    next
      case (Response status body)
      show ?thesis
      proof (cases "status = 200")
        case False
        have "r = \<lparr>package_name = package_name q, package_manager = lower (package_manager q),
                error = Some (''Package not found: '' @ package_name q),
                versions = [], latest_version = [], description = None\<rparr>"
          using package_info_not_found[where fetch = fetch and q = q and sv = sv, OF Some Response False] Inr
          by simp
        then show ?thesis unfolding ret by simp
      next
        case True
        show ?thesis
        proof (cases body)
          case (Inl e)
          have "fetch (format_package template (package_name q)) = Response 200 (Inl e)"
            using Response True Inl by simp
          then show ?thesis
            using package_info_undecodable[where fetch = fetch and q = q and sv = sv, OF Some] Inr
            by simp
        next
          case body: (Inr data)
          have f: "fetch (format_package template (package_name q)) = Response 200 (Inr data)"
            using Response True body by simp
          have "\<not> failed_request fetch q"
            using Some f by (simp add: failed_request_def)
          moreover have "\<not> isl (get_package_info_body sv fetch q)" using Inr by simp
          ultimately show ?thesis
            unfolding ret
            using package_info_decoded[where fetch = fetch and q = q and sv = sv, OF Some f Inr]
            by simp
        qed
      qed
    qed
  qed
qed

lemma dependencies_unsupported:
  assumes "map_of PACKAGE_REGISTRIES (lower (package_manager q)) = None"
  shows "get_dependencies_body dv fetch q =
           Inr \<lparr>package_name = package_name q, package_manager = lower (package_manager q),
                error = Some (''Unsupported package manager: '' @ lower (package_manager q)),
                dependencies = []\<rparr>"
  using assms by (simp add: get_dependencies_body_def Let_def)

lemma dependencies_transport:
  assumes "map_of PACKAGE_REGISTRIES (lower (package_manager q)) = Some template"
    and "fetch (format_package template (package_name q)) = Transport_Failure e"
  shows "get_dependencies_body dv fetch q = Inl e"
  using assms by (simp add: get_dependencies_body_def Let_def)

lemma dependencies_not_found:
  assumes "map_of PACKAGE_REGISTRIES (lower (package_manager q)) = Some template"
    and "fetch (format_package template (package_name q)) = Response status body"
    and "status \<noteq> 200"
  shows "get_dependencies_body dv fetch q =
           Inr \<lparr>package_name = package_name q, package_manager = lower (package_manager q),
                error = Some (''Package not found: '' @ package_name q),
                dependencies = []\<rparr>"
  using assms by (simp add: get_dependencies_body_def Let_def)

lemma dependencies_undecodable:
  assumes "map_of PACKAGE_REGISTRIES (lower (package_manager q)) = Some template"
    and "fetch (format_package template (package_name q)) = Response 200 (Inl e)"
  shows "get_dependencies_body dv fetch q = Inl e"
  using assms by (simp add: get_dependencies_body_def Let_def bind_exc_Inl)

lemma dependencies_decoded:
  assumes "map_of PACKAGE_REGISTRIES (lower (package_manager q)) = Some template"
    and "fetch (format_package template (package_name q)) = Response 200 (Inr data)"
    and "get_dependencies_body dv fetch q = Inr r"
  shows "package_name r = package_name q \<and> package_manager r = lower (package_manager q)
         \<and> error r = None"
  using assms
  by (auto simp: get_dependencies_body_def Let_def bind_exc_Inr split: if_splits prod.splits
        dest!: bind_exc_InrD dest: new_DependencyResult_named)

lemma dependencies_handled:
  assumes "get_dependencies_body dv fetch q = Inl e"
  shows "get_dependencies dv fetch q =
           \<lparr>package_name = package_name q, package_manager = package_manager q,
            error = Some (str_exc e), dependencies = []\<rparr>"
  using assms by (simp add: get_dependencies_def)

lemma dependencies_returned:
  assumes "get_dependencies_body dv fetch q = Inr r"
  shows "get_dependencies dv fetch q = r"
  using assms by (simp add: get_dependencies_def)

lemma dependencies_result:
  "package_name (get_dependencies dv fetch q) = package_name q
   \<and> package_manager (get_dependencies dv fetch q) \<in> {package_manager q, lower (package_manager q)}
   \<and> (failed_request fetch q \<or> isl (get_dependencies_body dv fetch q) \<longrightarrow>
        error (get_dependencies dv fetch q) \<noteq> None \<and> dependencies (get_dependencies dv fetch q) = [])"
proof (cases "get_dependencies_body dv fetch q")
  case (Inl e)
  show ?thesis unfolding dependencies_handled[OF Inl] by simp
next
  case (Inr r)
  note ret = dependencies_returned[OF Inr]
  show ?thesis
  proof (cases "map_of PACKAGE_REGISTRIES (lower (package_manager q))")
    case None
    have "r = \<lparr>package_name = package_name q, package_manager = lower (package_manager q),
                error = Some (''Unsupported package manager: '' @ lower (package_manager q)),
                dependencies = []\<rparr>"
      using dependencies_unsupported[where fetch = fetch and q = q and dv = dv, OF None] Inr by simp
    then show ?thesis unfolding ret by simp
  next
    case (Some template)
    show ?thesis
    proof (cases "fetch (format_package template (package_name q))")
      case (Transport_Failure e)
      then show ?thesis
        using dependencies_transport[where fetch = fetch and q = q and dv = dv, OF Some Transport_Failure] Inr
        by simp
    next
      case (Response status body)
      show ?thesis
      proof (cases "status = 200")
        case False
        have "r = \<lparr>package_name = package_name q, package_manager = lower (package_manager q),
                error = Some (''Package not found: '' @ package_name q),
                dependencies = []\<rparr>"
          using dependencies_not_found[where fetch = fetch and q = q and dv = dv, OF Some Response False] Inr
          by simp
        then show ?thesis unfolding ret by simp
      next
        case True
        show ?thesis
        proof (cases body)
          case (Inl e)
          have "fetch (format_package template (package_name q)) = Response 200 (Inl e)"
            using Response True Inl by simp
          then show ?thesis
            using dependencies_undecodable[where fetch = fetch and q = q and dv = dv, OF Some] Inr
            by simp
        next
          case body: (Inr data)
          have f: "fetch (format_package template (package_name q)) = Response 200 (Inr data)"
            using Response True body by simp
          have "\<not> failed_request fetch q"
            using Some f by (simp add: failed_request_def)
          moreover have "\<not> isl (get_dependencies_body dv fetch q)" using Inr by simp
          ultimately show ?thesis
            unfolding ret
            using dependencies_decoded[where fetch = fetch and q = q and dv = dv, OF Some f Inr]
            by simp
        qed
      qed
    qed
  qed
qed

lemma error_VersionResult_named:
  "error_VersionResult omitted n m msg = Inr r \<Longrightarrow>
     package_name r = n \<and> package_manager r = m \<and> error r = Some msg
     \<and> compatible_versions r = [] \<and> recommended_version r = None"
  by (auto simp: error_VersionResult_def split: option.splits)

lemma compatible_versions_unsupported:
  assumes "map_of PACKAGE_REGISTRIES (lower (package_manager q)) = None"
  shows "get_compatible_versions_body parse sv omitted fetch q =
           error_VersionResult omitted (package_name q) (lower (package_manager q))
             (''Unsupported package manager: '' @ lower (package_manager q))"
  using assms by (simp add: get_compatible_versions_body_def Let_def)

lemma compatible_versions_transport:
  assumes "map_of PACKAGE_REGISTRIES (lower (package_manager q)) = Some template"
    and "fetch (format_package template (package_name q)) = Transport_Failure e"
  shows "get_compatible_versions_body parse sv omitted fetch q = Inl e"
  using assms by (simp add: get_compatible_versions_body_def Let_def)

lemma compatible_versions_not_found:
  assumes "map_of PACKAGE_REGISTRIES (lower (package_manager q)) = Some template"
    and "fetch (format_package template (package_name q)) = Response status body"
    and "status \<noteq> 200"
  shows "get_compatible_versions_body parse sv omitted fetch q =
           error_VersionResult omitted (package_name q) (lower (package_manager q))
             (''Package not found: '' @ package_name q)"
  using assms by (simp add: get_compatible_versions_body_def Let_def)

lemma compatible_versions_undecodable:
  assumes "map_of PACKAGE_REGISTRIES (lower (package_manager q)) = Some template"
    and "fetch (format_package template (package_name q)) = Response 200 (Inl e)"
  shows "get_compatible_versions_body parse sv omitted fetch q = Inl e"
  using assms by (simp add: get_compatible_versions_body_def Let_def bind_exc_Inl)

lemma compatible_versions_decoded:
  assumes "map_of PACKAGE_REGISTRIES (lower (package_manager q)) = Some template"
    and "fetch (format_package template (package_name q)) = Response 200 (Inr data)"
    and "get_compatible_versions_body parse sv omitted fetch q = Inr r"
  shows "package_name r = package_name q \<and> package_manager r = lower (package_manager q)
         \<and> error r = None"
  using assms
  by (auto simp: get_compatible_versions_body_def Let_def bind_exc_Inr split: if_splits prod.splits
        dest!: bind_exc_InrD dest: new_VersionResult_named)

lemma compatible_versions_handled:
  assumes "get_compatible_versions_body parse sv omitted fetch q = Inl e"
  shows "get_compatible_versions parse sv omitted fetch q =
           error_VersionResult omitted (package_name q) (package_manager q) (str_exc e)"
  using assms by (simp add: get_compatible_versions_def)

lemma compatible_versions_returned:
  assumes "get_compatible_versions_body parse sv omitted fetch q = Inr r"
  shows "get_compatible_versions parse sv omitted fetch q = Inr r"
  using assms by (simp add: get_compatible_versions_def)

lemma compatible_versions_failed_body:
  assumes "failed_request fetch q"
  shows "(\<exists>e. get_compatible_versions_body parse sv omitted fetch q = Inl e)
       \<or> (\<exists>msg. get_compatible_versions_body parse sv omitted fetch q =
             error_VersionResult omitted (package_name q) (lower (package_manager q)) msg)"
proof (cases "map_of PACKAGE_REGISTRIES (lower (package_manager q))")
  case None
  then show ?thesis
    using compatible_versions_unsupported[where fetch = fetch and q = q and parse = parse
        and sv = sv and omitted = omitted]
    by blast
next
  case (Some template)
  show ?thesis
  proof (cases "fetch (format_package template (package_name q))")
    case (Transport_Failure e)
    then show ?thesis
      using compatible_versions_transport[where fetch = fetch and q = q and parse = parse
          and sv = sv and omitted = omitted, OF Some Transport_Failure]
      by blast
  next
    case (Response status body)
    show ?thesis
    proof (cases "status = 200")
      case False
      then show ?thesis
        using compatible_versions_not_found[where fetch = fetch and q = q and parse = parse
            and sv = sv and omitted = omitted, OF Some Response False]
        by blast
    next
      case True
      then obtain e where "body = Inl e"
        using assms Some Response by (cases body) (auto simp: failed_request_def)
      then have "fetch (format_package template (package_name q)) = Response 200 (Inl e)"
        using Response True by simp
      then show ?thesis
        using compatible_versions_undecodable[where fetch = fetch and q = q and parse = parse
            and sv = sv and omitted = omitted, OF Some]
        by blast
    qed
  qed
qed

text \<open>
  Where the result class requires \<^verbatim>\<open>recommended_version\<close>, every failure of the
  compatible-versions operation ends in the exception the constructor raises.
\<close>

lemma compatible_versions_required_field:
  assumes "failed_request fetch q
           \<or> isl (get_compatible_versions_body parse sv (Some e) fetch q)"
  shows "get_compatible_versions parse sv (Some e) fetch q = Inl e"
proof -
  have "\<exists>e'. get_compatible_versions_body parse sv (Some e) fetch q = Inl e'"
  proof (cases "isl (get_compatible_versions_body parse sv (Some e) fetch q)")
    case True
    then show ?thesis by (cases "get_compatible_versions_body parse sv (Some e) fetch q") auto
  next
    case False
    then have "failed_request fetch q" using assms by blast
    then show ?thesis
      using compatible_versions_failed_body[of fetch q parse sv "Some e"]
      by (auto simp: error_VersionResult_def)
  qed
  then obtain e' where "get_compatible_versions_body parse sv (Some e) fetch q = Inl e'"
    by blast
  then show ?thesis
    by (simp add: compatible_versions_handled error_VersionResult_def)
qed

text \<open>
  Where the class fills the omitted field with \<^verbatim>\<open>None\<close>, the operation returns a
  result for every input, and the error result for every failure.
\<close>

lemma compatible_versions_result:
  "\<exists>r. get_compatible_versions parse sv None fetch q = Inr r
       \<and> package_name r = package_name q
       \<and> package_manager r \<in> {package_manager q, lower (package_manager q)}
       \<and> (failed_request fetch q
            \<or> isl (get_compatible_versions_body parse sv None fetch q) \<longrightarrow>
           error r \<noteq> None \<and> compatible_versions r = [] \<and> recommended_version r = None)"
proof (cases "get_compatible_versions_body parse sv None fetch q")
  case (Inl e)
  show ?thesis
    unfolding compatible_versions_handled[OF Inl] by (simp add: error_VersionResult_def)
next
  case (Inr r)
  note ret = compatible_versions_returned[OF Inr]
  have names: "package_name r = package_name q \<and> package_manager r = lower (package_manager q)"
   and failed: "failed_request fetch q \<longrightarrow>
           error r \<noteq> None \<and> compatible_versions r = [] \<and> recommended_version r = None"
  proof -
    show "failed_request fetch q \<longrightarrow>
           error r \<noteq> None \<and> compatible_versions r = [] \<and> recommended_version r = None"
      using compatible_versions_failed_body[of fetch q parse sv None] Inr
      by (auto simp: error_VersionResult_def)
    show "package_name r = package_name q \<and> package_manager r = lower (package_manager q)"
    proof (cases "failed_request fetch q")
      case True
      then show ?thesis
        using compatible_versions_failed_body[of fetch q parse sv None] Inr
        by (auto simp: error_VersionResult_def)
    next
      case False
      then obtain template data where
        t: "map_of PACKAGE_REGISTRIES (lower (package_manager q)) = Some template"
        and f: "fetch (format_package template (package_name q)) = Response 200 (Inr data)"
      proof (cases "map_of PACKAGE_REGISTRIES (lower (package_manager q))")
        case None
        then show ?thesis using False by (simp add: failed_request_def)
      next
        case (Some template)
        show ?thesis
        proof (cases "fetch (format_package template (package_name q))")
          case (Transport_Failure e)
          then show ?thesis using False Some by (simp add: failed_request_def)
        next
          case (Response status body)
          then have st: "status = 200" and nb: "\<not> isl body"
            using False Some by (auto simp: failed_request_def)
          then obtain data where "body = Inr data" by (cases body) auto
          then show ?thesis using that[OF Some] Response st by simp
        qed
      qed
      show ?thesis
        using compatible_versions_decoded[where fetch = fetch and q = q and parse = parse
            and sv = sv and omitted = None, OF t f Inr]
        by simp
    qed
  qed
  show ?thesis unfolding ret using names failed Inr by simp
qed

lemma compatible_versions_served:
  assumes "map_of PACKAGE_REGISTRIES (lower (package_manager q)) = Some template"
    and "fetch (format_package template (package_name q)) = Response 200 (Inr data)"
    and "candidate_versions (lower (package_manager q)) data = Inr (vs, latest)"
  shows "get_compatible_versions_body parse sv omitted fetch q =
           bind_exc (resolution parse vs latest (version_constraint q))
             (\<lambda>(compatible, recommended).
                new_VersionResult sv (package_name q) (lower (package_manager q))
                  compatible recommended)"
  using assms by (simp add: get_compatible_versions_body_def Let_def bind_exc_Inr)

lemma startswith_nonempty: "startswith (p # ps) c \<Longrightarrow> c \<noteq> []"
  by (cases c) auto

lemma select_comparison:
  assumes "startswith ''>'' constraint \<or> startswith ''<'' constraint"
  shows "\<exists>rel bound. (bound = strip (drop 1 constraint) \<or> bound = strip (drop 2 constraint))
           \<and> select_matching parse constraint vs =
               map_sum id Some (compare_each parse rel bound vs)"
proof (cases "startswith ''>='' constraint")
  case True
  then show ?thesis by (auto simp: select_matching_def Let_def)
next
  case ge: False
  show ?thesis
  proof (cases "startswith ''>'' constraint")
    case True
    then show ?thesis using ge by (auto simp: select_matching_def Let_def)
  next
    case gt: False
    show ?thesis
    proof (cases "startswith ''<='' constraint")
      case True
      then show ?thesis using ge gt by (auto simp: select_matching_def Let_def)
    next
      case False
      then show ?thesis using ge gt assms by (auto simp: select_matching_def Let_def)
    qed
  qed
qed

lemma comparison_fails:
  assumes "startswith ''>'' constraint \<or> startswith ''<'' constraint"
    and "\<exists>v\<in>set vs. parse v = None"
  shows "\<exists>s. parse s = None
           \<and> (s \<in> set vs \<or> s = strip (drop 1 constraint) \<or> s = strip (drop 2 constraint))
           \<and> resolution parse vs latest (Some constraint) = Inl (InvalidVersion s)"
proof -
  have ne: "constraint \<noteq> []" using assms(1) startswith_nonempty by blast
  obtain rel bound where b: "bound = strip (drop 1 constraint) \<or> bound = strip (drop 2 constraint)"
    and sel: "select_matching parse constraint vs =
               map_sum id Some (compare_each parse rel bound vs)"
    using select_comparison[OF assms(1)] by blast
  obtain e where e: "compare_each parse rel bound vs = Inl e"
    using compare_each_fails[OF assms(2)] by blast
  then obtain s where s: "e = InvalidVersion s" "parse s = None" "s \<in> set vs \<or> s = bound"
    using compare_each_Inl by blast
  have "resolution parse vs latest (Some constraint) = Inl (InvalidVersion s)"
    using ne sel e s(1) by (simp add: resolution_Some)
  with s b show ?thesis by blast
qed

section \<open>The claims\<close>

subsection \<open>C1: the candidate list under an unrecognised operator\<close>

text \<open>
  Claim C1: resolution never changes the candidate list it was given, whatever the
  constraint. The resolver leaves the list alone when the constraint is absent, empty
  or starts with a recognised operator (\<open>resolve_keeps_candidates\<close> above). With any
  other constraint \<^verbatim>\<open>compatible_versions\<close> is still bound to the candidate list
  itself, and the sort in line 245 reorders that list in place: the candidate list at
  address 0 holds 1.0, 2.0 before the call with the constraint \<^verbatim>\<open>!=1.0\<close> and
  2.0, 1.0 after it.
\<close>

theorem unrecognised_operator_sorts_candidates_in_place:
  "deref (fst (alloc empty_store [''1.0'', ''2.0''])) 0 = [''1.0'', ''2.0'']
   \<and> map_sum id (\<lambda>(s1, compatible, recommended). (deref s1 0, compatible, recommended))
        (resolve parse_release (fst (alloc empty_store [''1.0'', ''2.0''])) 0
           (JStr ''2.0'') (Some ''!=1.0''))
      = Inr ([''2.0'', ''1.0''], 0, JStr ''2.0'')"
  by code_simp

subsection \<open>C2: every failure becomes an error result\<close>

text \<open>
  Claim C2: each of the three operations returns a result for every input, with an
  error text and empty data fields on every failure, and no exception leaves an
  operation. The package-info and the dependencies operation do so (lemmas
  \<open>package_info_result\<close> and \<open>dependencies_result\<close>): every field of their error
  results is given or has a declared default. The compatible-versions operation
  builds its three error results, the one of the \<^verbatim>\<open>except\<close> handler included, without
  \<^verbatim>\<open>recommended_version\<close>, the one optional field declared without a default. Where
  the result class requires the field, the constructor raises; raised in the
  \<^verbatim>\<open>try\<close> block the exception reaches the handler, raised in the handler it leaves
  the operation (lemma \<open>compatible_versions_required_field\<close>). For the unsupported
  registry cargo the operation raises the \<^verbatim>\<open>ValidationError\<close> where the field is
  required; it returns the error result of the claim where the class fills the field
  with \<^verbatim>\<open>None\<close> (lemma \<open>compatible_versions_result\<close>), as the package-info
  operation does in either case.
\<close>

theorem error_result_without_recommended_version:
  "get_compatible_versions parse_release str_only
      (Some (ValidationError ''recommended_version: Field required''))
      (serving JNull)
      \<lparr>package_name = ''sample'', package_manager = ''cargo'', version_constraint = None\<rparr>
     = Inl (ValidationError ''recommended_version: Field required'')
   \<and> get_compatible_versions parse_release str_only None (serving JNull)
      \<lparr>package_name = ''sample'', package_manager = ''cargo'', version_constraint = None\<rparr>
     = Inr \<lparr>package_name = ''sample'', package_manager = ''cargo'',
            error = Some ''Unsupported package manager: cargo'',
            compatible_versions = [], recommended_version = None\<rparr>
   \<and> get_package_info str_only (serving JNull)
      \<lparr>package_name = ''sample'', package_manager = ''cargo'', version = None\<rparr>
     = \<lparr>package_name = ''sample'', package_manager = ''cargo'',
        error = Some ''Unsupported package manager: cargo'',
        versions = [], latest_version = [], description = None\<rparr>"
  by code_simp

subsection \<open>C3: an unparsable candidate under a comparison operator\<close>

text \<open>
  Claim C3 says that a candidate that does not parse fails only its own comparison,
  and that the parsable candidates are still filtered, sorted and recommended. The
  code has no handling per candidate: the first string that does not parse raises out
  of the comprehension and ends the \<^verbatim>\<open>try\<close> block. With the releases 1.0.0, nightly
  and 2.0.0 and the constraint \<^verbatim>\<open>>=1.0.0\<close> the resolver raises, although 1.0.0 and
  2.0.0 parse and satisfy the constraint, and the operation returns no version and no
  recommendation: its outcome is the error result where the result class fills the
  omitted field, and the exception of the constructor where it requires the field.
\<close>

theorem unparsable_candidate_counterexample:
  "parse_release ''1.0.0'' = Some [1] \<and> parse_release ''2.0.0'' = Some [2]
   \<and> parse_release ''nightly'' = None
   \<and> resolution parse_release [''1.0.0'', ''nightly'', ''2.0.0''] (JStr ''2.0.0'')
        (Some ''>=1.0.0'')
       = Inl (InvalidVersion ''nightly'')
   \<and> get_compatible_versions parse_release str_only None
         (serving (pypi_document [''1.0.0'', ''nightly'', ''2.0.0''] ''2.0.0''))
         \<lparr>package_name = ''sample'', package_manager = ''pip'',
          version_constraint = Some ''>=1.0.0''\<rparr>
       = Inr \<lparr>package_name = ''sample'', package_manager = ''pip'',
              error = Some (''Invalid version: '' @ py_repr ''nightly''),
              compatible_versions = [], recommended_version = None\<rparr>
   \<and> get_compatible_versions parse_release str_only
         (Some (ValidationError ''recommended_version: Field required''))
         (serving (pypi_document [''1.0.0'', ''nightly'', ''2.0.0''] ''2.0.0''))
         \<lparr>package_name = ''sample'', package_manager = ''pip'',
          version_constraint = Some ''>=1.0.0''\<rparr>
       = Inl (ValidationError ''recommended_version: Field required'')"
  by code_simp

text \<open>
  Claim C3 as amended: when the registry serves a candidate list in which some
  version does not parse, and the constraint starts with \<^verbatim>\<open>>\<close> or \<^verbatim>\<open><\<close> (the four
  comparison operators), the whole batch fails. The resolver raises \<^verbatim>\<open>InvalidVersion\<close>
  for a string that does not parse, which is a candidate or the operand of the
  constraint; no candidate is filtered, sorted or recommended; and the outcome of the
  operation is that of its \<^verbatim>\<open>except\<close> handler for this exception: the error result
  with no compatible version, no recommendation and the text of the exception where
  the result class fills the omitted \<^verbatim>\<open>recommended_version\<close> with \<^verbatim>\<open>None\<close>, and the
  exception of the constructor where it does not.
\<close>

theorem unparsable_candidate_fails_batch:
  assumes "map_of PACKAGE_REGISTRIES (lower (package_manager q)) = Some template"
    and "fetch (format_package template (package_name q)) = Response 200 (Inr data)"
    and "candidate_versions (lower (package_manager q)) data = Inr (vs, latest)"
    and "version_constraint q = Some constraint"
    and "startswith ''>'' constraint \<or> startswith ''<'' constraint"
    and "\<exists>v\<in>set vs. parse v = None"
  shows "\<exists>s. parse s = None
           \<and> (s \<in> set vs \<or> s = strip (drop 1 constraint) \<or> s = strip (drop 2 constraint))
           \<and> resolution parse vs latest (Some constraint) = Inl (InvalidVersion s)
           \<and> get_compatible_versions parse sv omitted fetch q =
               (case omitted of
                  None \<Rightarrow>
                    Inr \<lparr>package_name = package_name q, package_manager = package_manager q,
                         error = Some (str_exc (InvalidVersion s)),
                         compatible_versions = [], recommended_version = None\<rparr>
                | Some e \<Rightarrow> Inl e)"
proof -
  obtain s where s: "parse s = None"
    "s \<in> set vs \<or> s = strip (drop 1 constraint) \<or> s = strip (drop 2 constraint)"
    "resolution parse vs latest (Some constraint) = Inl (InvalidVersion s)"
    using comparison_fails[OF assms(5,6)] by blast
  have "get_compatible_versions_body parse sv omitted fetch q = Inl (InvalidVersion s)"
    using compatible_versions_served[where fetch = fetch and q = q and parse = parse and sv = sv
            and omitted = omitted, OF assms(1,2,3)] assms(4) s(3)
    by (simp add: bind_exc_Inl)
  then have "get_compatible_versions parse sv omitted fetch q =
               error_VersionResult omitted (package_name q) (package_manager q)
                 (str_exc (InvalidVersion s))"
    by (rule compatible_versions_handled)
  then have "get_compatible_versions parse sv omitted fetch q =
               (case omitted of
                  None \<Rightarrow>
                    Inr \<lparr>package_name = package_name q, package_manager = package_manager q,
                         error = Some (str_exc (InvalidVersion s)),
                         compatible_versions = [], recommended_version = None\<rparr>
                | Some e \<Rightarrow> Inl e)"
    by (simp add: error_VersionResult_def split: option.splits)
  with s show ?thesis by blast
qed

theorem unparsable_candidate_fails_batch_witness:
  "map_of PACKAGE_REGISTRIES
     (lower (package_manager \<lparr>package_name = ''sample'', package_manager = ''Pip'',
        version_constraint = Some ''<2.0''\<rparr>))
     = Some ''https://pypi.org/pypi/{package}/json''
   \<and> serving (pypi_document [''0.9'', ''stable'', ''3.1''] ''3.1'')
        (format_package ''https://pypi.org/pypi/{package}/json''
           (package_name \<lparr>package_name = ''sample'', package_manager = ''Pip'',
              version_constraint = Some ''<2.0''\<rparr>))
      = Response 200 (Inr (pypi_document [''0.9'', ''stable'', ''3.1''] ''3.1''))
   \<and> candidate_versions
        (lower (package_manager \<lparr>package_name = ''sample'', package_manager = ''Pip'',
           version_constraint = Some ''<2.0''\<rparr>))
        (pypi_document [''0.9'', ''stable'', ''3.1''] ''3.1'')
      = Inr ([''0.9'', ''stable'', ''3.1''], JStr ''3.1'')
   \<and> (startswith ''>'' ''<2.0'' \<or> startswith ''<'' ''<2.0'')
   \<and> (\<exists>v\<in>set [''0.9'', ''stable'', ''3.1'']. parse_release v = None)
   \<and> (\<exists>s. parse_release s = None
         \<and> (s \<in> set [''0.9'', ''stable'', ''3.1'']
              \<or> s = strip (drop 1 ''<2.0'') \<or> s = strip (drop 2 ''<2.0''))
         \<and> resolution parse_release [''0.9'', ''stable'', ''3.1''] (JStr ''3.1'') (Some ''<2.0'')
             = Inl (InvalidVersion s)
         \<and> get_compatible_versions parse_release str_only None
               (serving (pypi_document [''0.9'', ''stable'', ''3.1''] ''3.1''))
               \<lparr>package_name = ''sample'', package_manager = ''Pip'',
                version_constraint = Some ''<2.0''\<rparr>
             = Inr \<lparr>package_name = ''sample'', package_manager = ''Pip'',
                    error = Some (str_exc (InvalidVersion s)),
                    compatible_versions = [], recommended_version = None\<rparr>)"
proof -
  let ?q = "\<lparr>package_name = ''sample'', package_manager = ''Pip'',
             version_constraint = Some ''<2.0''\<rparr>"
  let ?doc = "pypi_document [''0.9'', ''stable'', ''3.1''] ''3.1''"
  have h1: "map_of PACKAGE_REGISTRIES (lower (package_manager ?q))
              = Some ''https://pypi.org/pypi/{package}/json''"
    by code_simp
  have h2: "serving ?doc (format_package ''https://pypi.org/pypi/{package}/json'' (package_name ?q))
              = Response 200 (Inr ?doc)"
    by (simp add: serving_def)
  have h3: "candidate_versions (lower (package_manager ?q)) ?doc
              = Inr ([''0.9'', ''stable'', ''3.1''], JStr ''3.1'')"
    by code_simp
  have h4: "version_constraint ?q = Some ''<2.0''"
    by simp
  have h5: "startswith ''>'' ''<2.0'' \<or> startswith ''<'' ''<2.0''"
    by simp
  have h6: "\<exists>v\<in>set [''0.9'', ''stable'', ''3.1'']. parse_release v = None"
    by code_simp
  note c = unparsable_candidate_fails_batch[where sv = str_only and fetch = "serving ?doc"
        and q = ?q and parse = parse_release and omitted = None, OF h1 h2 h3 h4 h5 h6]
  from h1 h2 h3 h5 h6 c show ?thesis
    by (intro conjI) (assumption | simp)+
qed

subsection \<open>C4: an unrecognised operator does not filter\<close>

text \<open>
  Claim C4 says that a constraint with an unrecognised operator returns the full
  candidate set and signals no error, for every candidate set. The candidates are
  still ranked, and the ranking parses each of them: with the releases 1.0 and
  nightly and the constraint \<^verbatim>\<open>!=1.0\<close> the resolver raises, and the operation
  returns no version at all: its outcome is the error result where the result class
  fills the omitted field, and the exception of the constructor where it requires the
  field.
\<close>

theorem unrecognised_operator_counterexample:
  "\<not> recognised ''!=1.0''
   \<and> resolution parse_release [''1.0'', ''nightly''] (JStr ''1.0'') (Some ''!=1.0'')
       = Inl (InvalidVersion ''nightly'')
   \<and> get_compatible_versions parse_release str_only None
         (serving (pypi_document [''1.0'', ''nightly''] ''1.0''))
         \<lparr>package_name = ''sample'', package_manager = ''pip'',
          version_constraint = Some ''!=1.0''\<rparr>
       = Inr \<lparr>package_name = ''sample'', package_manager = ''pip'',
              error = Some (''Invalid version: '' @ py_repr ''nightly''),
              compatible_versions = [], recommended_version = None\<rparr>
   \<and> get_compatible_versions parse_release str_only
         (Some (ValidationError ''recommended_version: Field required''))
         (serving (pypi_document [''1.0'', ''nightly''] ''1.0''))
         \<lparr>package_name = ''sample'', package_manager = ''pip'',
          version_constraint = Some ''!=1.0''\<rparr>
       = Inl (ValidationError ''recommended_version: Field required'')"
  by code_simp

text \<open>
  Claim C4 as amended: for a non-empty constraint that starts with none of the six
  operators the resolver filters nothing. If every candidate parses, it raises
  nothing and yields all candidates, none dropped and none added, as the list ordered
  by parsed version, descending (see C10), with its first element as the
  recommendation (none for an empty list). If some candidate does not parse, the
  ranking raises \<^verbatim>\<open>InvalidVersion\<close> for such a candidate, and the resolver yields no
  candidate list.
\<close>

theorem unrecognised_operator_keeps_all:
  assumes "constraint \<noteq> []" and "\<not> recognised constraint"
  shows "((\<forall>v\<in>set vs. parse v \<noteq> None) \<longrightarrow>
            resolution parse vs latest (Some constraint) =
              Inr (descending parse vs,
                   if vs = [] then JNull else JStr (hd (descending parse vs)))
          \<and> mset (descending parse vs) = mset vs)
       \<and> ((\<exists>v\<in>set vs. parse v = None) \<longrightarrow>
            (\<exists>v\<in>set vs. parse v = None \<and>
               resolution parse vs latest (Some constraint) = Inl (InvalidVersion v)))"
proof -
  have sel: "select_matching parse constraint vs = Inr None"
    using assms(2) by (rule select_unrecognised)
  have m: "matches_of vs None = vs" by (simp add: matches_of_def)
  have a: "(\<forall>v\<in>set vs. parse v \<noteq> None) \<Longrightarrow>
            resolution parse vs latest (Some constraint) =
              Inr (descending parse vs,
                   if vs = [] then JNull else JStr (hd (descending parse vs)))"
  proof (cases "vs = []")
    case True
    then show ?thesis
      using resolution_no_match[OF assms(1) sel] by (simp add: matches_of_def descending_def)
  next
    case False
    assume "\<forall>v\<in>set vs. parse v \<noteq> None"
    then show ?thesis
      using resolution_ranked[OF assms(1) sel] False by (simp add: m)
  qed
  have b: "(\<exists>v\<in>set vs. parse v = None) \<Longrightarrow>
            (\<exists>v\<in>set vs. parse v = None \<and>
               resolution parse vs latest (Some constraint) = Inl (InvalidVersion v))"
    using resolution_unparsable_match[OF assms(1) sel] by (simp add: m)
  show ?thesis using a b mset_descending[of parse vs] by blast
qed

theorem unrecognised_operator_keeps_all_witness:
  "''^1.2'' \<noteq> [] \<and> \<not> recognised ''^1.2''
   \<and> list_all (\<lambda>v. parse_release v \<noteq> None) [''1.2.0'', ''2.0'', ''1.10'']
   \<and> resolution parse_release [''1.2.0'', ''2.0'', ''1.10''] (JStr ''2.0'') (Some ''^1.2'')
       = Inr ([''2.0'', ''1.10'', ''1.2.0''], JStr ''2.0'')
   \<and> mset [''2.0'', ''1.10'', ''1.2.0''] = mset [''1.2.0'', ''2.0'', ''1.10'']"
proof -
  have h1: "''^1.2'' \<noteq> []" by simp
  have h2: "\<not> recognised ''^1.2''" by code_simp
  have l3: "list_all (\<lambda>v. parse_release v \<noteq> None) [''1.2.0'', ''2.0'', ''1.10'']" by code_simp
  then have h3: "\<forall>v\<in>set [''1.2.0'', ''2.0'', ''1.10'']. parse_release v \<noteq> None"
    by (simp only: list_all_iff)
  have d: "descending parse_release [''1.2.0'', ''2.0'', ''1.10''] = [''2.0'', ''1.10'', ''1.2.0'']"
    by code_simp
  have "resolution parse_release [''1.2.0'', ''2.0'', ''1.10''] (JStr ''2.0'') (Some ''^1.2'')
          = Inr (descending parse_release [''1.2.0'', ''2.0'', ''1.10''],
                 JStr (hd (descending parse_release [''1.2.0'', ''2.0'', ''1.10''])))
        \<and> mset (descending parse_release [''1.2.0'', ''2.0'', ''1.10''])
            = mset [''1.2.0'', ''2.0'', ''1.10'']"
    using unrecognised_operator_keeps_all[OF h1 h2, of "[''1.2.0'', ''2.0'', ''1.10'']"
        parse_release "JStr ''2.0''"] h3
    by simp
  then have "resolution parse_release [''1.2.0'', ''2.0'', ''1.10''] (JStr ''2.0'') (Some ''^1.2'')
       = Inr ([''2.0'', ''1.10'', ''1.2.0''], JStr ''2.0'')
     \<and> mset [''2.0'', ''1.10'', ''1.2.0''] = mset [''1.2.0'', ''2.0'', ''1.10'']"
    unfolding d by simp
  with h1 h2 l3 show ?thesis by blast
qed

subsection \<open>C5: the operator ==\<close>

text \<open>
  Claim C5: with the operator \<^verbatim>\<open>==\<close> the filter keeps exactly the candidates whose
  string equals the operand (the text after the operator, stripped); the strings are
  compared, not the parsed versions. The filter of line 235 yields that list for every
  parser, its elements are the candidates equal to the operand, and whenever the
  resolver returns a list at all it is this list.
\<close>

theorem exact_operator_is_string_equality:
  "select_matching parse (''=='' @ rest) vs = Inr (Some (filter (\<lambda>v. v = strip rest) vs))
   \<and> set (filter (\<lambda>v. v = strip rest) vs) = {v \<in> set vs. v = strip rest}
   \<and> (\<forall>ys r. resolution parse vs latest (Some (''=='' @ rest)) = Inr (ys, r) \<longrightarrow>
         ys = filter (\<lambda>v. v = strip rest) vs)"
proof -
  let ?ms = "filter (\<lambda>v. v = strip rest) vs"
  have sel: "select_matching parse (''=='' @ rest) vs = Inr (Some ?ms)"
    by (rule select_eq)
  have "ys = ?ms" if r: "resolution parse vs latest (Some (''=='' @ rest)) = Inr (ys, r)" for ys r
  proof (cases "?ms = []")
    case True
    then show ?thesis using r sel by (simp add: resolution_Some matches_of_def)
  next
    case False
    then have "sort_reverse parse ?ms = Inr ys"
      using r sel by (auto simp: resolution_Some matches_of_def split: sum.splits list.splits)
    then have "ys = descending parse ?ms" by (rule sort_reverse_Inr)
    then have "mset ys = mset ?ms" by (simp add: mset_descending)
    then show ?thesis by (rule all_equal_same_list[where x = "strip rest"]) simp
  qed
  then show ?thesis using sel by auto
qed

text \<open>
  The candidates 1.0 and 1.0.0 parse to the same version; only the string 1.0 is kept.
\<close>

theorem exact_operator_is_string_equality_witness:
  "parse_release ''1.0'' = parse_release ''1.0.0''
   \<and> select_matching parse_release (''=='' @ '' 1.0'') [''1.0'', ''1.0.0'', ''2.0'', ''1.0'']
       = Inr (Some [''1.0'', ''1.0''])
   \<and> resolution parse_release [''1.0'', ''1.0.0'', ''2.0'', ''1.0''] (JStr ''2.0'')
        (Some (''=='' @ '' 1.0''))
       = Inr ([''1.0'', ''1.0''], JStr ''1.0'')"
proof -
  have p: "parse_release ''1.0'' = parse_release ''1.0.0''" by code_simp
  have f: "filter (\<lambda>v. v = strip '' 1.0'') [''1.0'', ''1.0.0'', ''2.0'', ''1.0''] = [''1.0'', ''1.0'']"
    by code_simp
  have r: "resolution parse_release [''1.0'', ''1.0.0'', ''2.0'', ''1.0''] (JStr ''2.0'')
        (Some (''=='' @ '' 1.0'')) = Inr ([''1.0'', ''1.0''], JStr ''1.0'')"
    by code_simp
  note t = exact_operator_is_string_equality[of parse_release "'' 1.0''"
      "[''1.0'', ''1.0.0'', ''2.0'', ''1.0'']" "JStr ''2.0''"]
  have s: "select_matching parse_release (''=='' @ '' 1.0'') [''1.0'', ''1.0.0'', ''2.0'', ''1.0'']
       = Inr (Some [''1.0'', ''1.0''])"
    using t unfolding f by (rule conjunct1)
  from p s r show ?thesis by (intro conjI)
qed

subsection \<open>C6: the comparison operators\<close>



subsection \<open>C7: the operator ~=\<close>

text \<open>
  Claim C7: with the operator \<^verbatim>\<open>~=\<close> a candidate matches iff its string starts with
  the operand without its last component, followed by a dot. If the operand is
  \<open>p.l\<close> with no dot in \<open>l\<close>, the candidates kept are those with the prefix \<open>p.\<close>; if
  the operand has no dot, those with the prefix of a single dot. For the operand
  1.4.2 the candidate 1.4.9 matches and the candidates 1.5.0 and 1.4 do not.
\<close>

theorem compatible_release_is_prefix_match:
  "(CHR ''.'' \<notin> set l \<and> strip rest = p @ ''.'' @ l \<longrightarrow>
      select_matching parse (''~='' @ rest) vs = Inr (Some (filter (prefix (p @ ''.'')) vs)))
   \<and> (CHR ''.'' \<notin> set (strip rest) \<longrightarrow>
      select_matching parse (''~='' @ rest) vs = Inr (Some (filter (prefix ''.'') vs)))
   \<and> select_matching parse ''~=1.4.2'' [''1.4.9'', ''1.5.0'', ''1.4''] = Inr (Some [''1.4.9''])"
proof -
  have a: "select_matching parse (''~='' @ rest) vs = Inr (Some (filter (prefix (p @ ''.'')) vs))"
    if h: "CHR ''.'' \<notin> set l \<and> strip rest = p @ ''.'' @ l"
  proof -
    have "join ''.'' (butlast (split_on CHR ''.'' (strip rest))) @ ''.'' = p @ ''.''"
      using h required_prefix_dotted[of l p] by simp
    then show ?thesis
      unfolding select_compatible startswith_eq_prefix by (simp only:)
  qed
  have b: "select_matching parse (''~='' @ rest) vs = Inr (Some (filter (prefix ''.'') vs))"
    if h: "CHR ''.'' \<notin> set (strip rest)"
  proof -
    have "join ''.'' (butlast (split_on CHR ''.'' (strip rest))) @ ''.'' = ''.''"
      using h by (rule required_prefix_plain)
    then show ?thesis
      unfolding select_compatible startswith_eq_prefix by (simp only:)
  qed
  have c: "select_matching parse ''~=1.4.2'' [''1.4.9'', ''1.5.0'', ''1.4''] = Inr (Some [''1.4.9''])"
    by (simp add: select_matching_def strip_def is_space_def)
  show ?thesis using a b c by blast
qed

theorem compatible_release_is_prefix_match_witness:
  "CHR ''.'' \<notin> set ''2'' \<and> strip ''1.4.2 '' = ''1.4'' @ ''.'' @ ''2''
   \<and> select_matching parse_release (''~='' @ ''1.4.2 '') [''1.4.0'', ''1.4.9'', ''1.5.0'', ''1.4'', ''1.40'']
       = Inr (Some (filter (prefix (''1.4'' @ ''.'')) [''1.4.0'', ''1.4.9'', ''1.5.0'', ''1.4'', ''1.40'']))
   \<and> filter (prefix (''1.4'' @ ''.'')) [''1.4.0'', ''1.4.9'', ''1.5.0'', ''1.4'', ''1.40'']
       = [''1.4.0'', ''1.4.9'']"
proof -
  have h1: "CHR ''.'' \<notin> set ''2''" by simp
  have h2: "strip ''1.4.2 '' = ''1.4'' @ ''.'' @ ''2''" by code_simp
  have f: "filter (prefix (''1.4'' @ ''.'')) [''1.4.0'', ''1.4.9'', ''1.5.0'', ''1.4'', ''1.40'']
       = [''1.4.0'', ''1.4.9'']"
    by simp
  have "select_matching parse_release (''~='' @ ''1.4.2 '') [''1.4.0'', ''1.4.9'', ''1.5.0'', ''1.4'', ''1.40'']
       = Inr (Some (filter (prefix (''1.4'' @ ''.'')) [''1.4.0'', ''1.4.9'', ''1.5.0'', ''1.4'', ''1.40'']))"
    using compatible_release_is_prefix_match[of "''2''" "''1.4.2 ''" "''1.4''" parse_release
        "[''1.4.0'', ''1.4.9'', ''1.5.0'', ''1.4'', ''1.40'']"] h1 h2
    by blast
  with h1 h2 f show ?thesis by (intro conjI)
qed

subsection \<open>C8: ranking and recommendation\<close>

text \<open>
  Claim C8 says that, for every constraint and candidate set, the candidates that
  remain are returned sorted by parsed version, descending, with the first as the
  recommendation. The sort parses every remaining candidate, and the \<^verbatim>\<open>==\<close> and
  \<^verbatim>\<open>~=\<close> filters and the unrecognised operators keep candidates without parsing
  them: with the releases 1.0 and nightly and the constraint \<^verbatim>\<open>==nightly\<close> one
  candidate remains, the sort raises, and the operation returns no version and no
  recommendation: its outcome is the error result where the result class fills the
  omitted field, and the exception of the constructor where it requires the field.
\<close>

theorem ranking_counterexample:
  "select_matching parse_release ''==nightly'' [''1.0'', ''nightly''] = Inr (Some [''nightly''])
   \<and> resolution parse_release [''1.0'', ''nightly''] (JStr ''1.0'') (Some ''==nightly'')
       = Inl (InvalidVersion ''nightly'')
   \<and> get_compatible_versions parse_release str_only None
         (serving (pypi_document [''1.0'', ''nightly''] ''1.0''))
         \<lparr>package_name = ''sample'', package_manager = ''pip'',
          version_constraint = Some ''==nightly''\<rparr>
       = Inr \<lparr>package_name = ''sample'', package_manager = ''pip'',
              error = Some (''Invalid version: '' @ py_repr ''nightly''),
              compatible_versions = [], recommended_version = None\<rparr>
   \<and> get_compatible_versions parse_release str_only
         (Some (ValidationError ''recommended_version: Field required''))
         (serving (pypi_document [''1.0'', ''nightly''] ''1.0''))
         \<lparr>package_name = ''sample'', package_manager = ''pip'',
          version_constraint = Some ''==nightly''\<rparr>
       = Inl (ValidationError ''recommended_version: Field required'')"
  by code_simp

text \<open>
  Claim C8 as amended: for a non-empty constraint whose filter raises nothing, let the
  matches be the candidates that remain. If there is none, the resolver yields the
  empty list and no recommendation, and raises nothing. If there are some and each of
  them parses, it yields the matches ordered by parsed version, descending (the same
  versions, each as often as among the matches), and the recommendation is the first
  element of that list. If some match does not parse, the sort raises
  \<^verbatim>\<open>InvalidVersion\<close> for such a match, and the resolver yields neither a list nor a
  recommendation.
\<close>

theorem ranking_after_filtering:
  assumes "constraint \<noteq> []"
    and "select_matching parse constraint vs = Inr built"
  shows "(matches_of vs built = [] \<longrightarrow>
            resolution parse vs latest (Some constraint) = Inr ([], JNull))
       \<and> (matches_of vs built \<noteq> [] \<and> (\<forall>v\<in>set (matches_of vs built). parse v \<noteq> None) \<longrightarrow>
            resolution parse vs latest (Some constraint) =
              Inr (descending parse (matches_of vs built),
                   JStr (hd (descending parse (matches_of vs built))))
          \<and> mset (descending parse (matches_of vs built)) = mset (matches_of vs built)
          \<and> sorted_wrt (\<lambda>a b. the (parse b) \<le> the (parse a))
               (descending parse (matches_of vs built)))
       \<and> ((\<exists>v\<in>set (matches_of vs built). parse v = None) \<longrightarrow>
            (\<exists>v\<in>set (matches_of vs built). parse v = None \<and>
               resolution parse vs latest (Some constraint) = Inl (InvalidVersion v)))"
  using resolution_no_match[OF assms] resolution_ranked[OF assms]
    resolution_unparsable_match[OF assms] mset_descending descending_wrt
  by blast

text \<open>
  The first end-to-end scenario of the specification, and a constraint that no
  candidate satisfies.
\<close>

theorem ranking_after_filtering_witness:
  "''>=1.2.0'' \<noteq> []
   \<and> select_matching parse_release ''>=1.2.0'' [''1.0.0'', ''1.2.0'', ''1.2.3'', ''2.0.0'']
       = Inr (Some [''1.2.0'', ''1.2.3'', ''2.0.0''])
   \<and> list_all (\<lambda>v. parse_release v \<noteq> None) [''1.2.0'', ''1.2.3'', ''2.0.0'']
   \<and> resolution parse_release [''1.0.0'', ''1.2.0'', ''1.2.3'', ''2.0.0''] (JStr ''2.0.0'')
        (Some ''>=1.2.0'')
       = Inr ([''2.0.0'', ''1.2.3'', ''1.2.0''], JStr ''2.0.0'')
   \<and> select_matching parse_release ''>=3'' [''1.0.0'', ''1.2.0'', ''1.2.3'', ''2.0.0''] = Inr (Some [])
   \<and> resolution parse_release [''1.0.0'', ''1.2.0'', ''1.2.3'', ''2.0.0''] (JStr ''2.0.0'')
        (Some ''>=3'')
       = Inr ([], JNull)"
proof -
  let ?vs = "[''1.0.0'', ''1.2.0'', ''1.2.3'', ''2.0.0'']"
  have h1: "''>=1.2.0'' \<noteq> []" by simp
  have h2: "select_matching parse_release ''>=1.2.0'' ?vs = Inr (Some [''1.2.0'', ''1.2.3'', ''2.0.0''])"
    by code_simp
  have l3: "list_all (\<lambda>v. parse_release v \<noteq> None) [''1.2.0'', ''1.2.3'', ''2.0.0'']"
    by code_simp
  then have h3: "\<forall>v\<in>set [''1.2.0'', ''1.2.3'', ''2.0.0'']. parse_release v \<noteq> None"
    by (simp only: list_all_iff)
  have d: "descending parse_release [''1.2.0'', ''1.2.3'', ''2.0.0''] = [''2.0.0'', ''1.2.3'', ''1.2.0'']"
    by code_simp
  have a: "resolution parse_release ?vs (JStr ''2.0.0'') (Some ''>=1.2.0'')
             = Inr ([''2.0.0'', ''1.2.3'', ''1.2.0''], JStr ''2.0.0'')"
    using ranking_after_filtering[OF h1 h2, of "JStr ''2.0.0''"] h3
    by (simp add: matches_of_def d)
  have k1: "''>=3'' \<noteq> []" by simp
  have k2: "select_matching parse_release ''>=3'' ?vs = Inr (Some [])"
    by code_simp
  have b: "resolution parse_release ?vs (JStr ''2.0.0'') (Some ''>=3'') = Inr ([], JNull)"
    using ranking_after_filtering[OF k1 k2, of "JStr ''2.0.0''"]
    by (simp add: matches_of_def)
  from h1 h2 l3 a k2 b show ?thesis by (intro conjI)
qed

subsection \<open>C9: no constraint\<close>

text \<open>
  Claim C9: when the constraint is absent or the empty string, the result is the
  candidate list as the registry gave it, unfiltered and in its order, and the
  recommendation is the latest version the registry reports, whatever the candidates
  are. In the store nothing changes and \<^verbatim>\<open>compatible_versions\<close> is the candidate list
  itself.
\<close>

theorem no_constraint_passes_through:
  "resolution parse vs latest None = Inr (vs, latest)
   \<and> resolution parse vs latest (Some []) = Inr (vs, latest)
   \<and> resolve parse s a latest None = Inr (s, a, latest)
   \<and> resolve parse s a latest (Some []) = Inr (s, a, latest)"
  by (simp add: resolution_absent resolution_empty resolve_def)

text \<open>
  The registry reports 1.0 as latest although 3.0 is a candidate: 1.0 is recommended
  and nothing is sorted, also at the level of the operation.
\<close>

theorem no_constraint_passes_through_witness:
  "resolution parse_release [''1.0'', ''3.0'', ''nightly'', ''2.0''] (JStr ''1.0'') None
     = Inr ([''1.0'', ''3.0'', ''nightly'', ''2.0''], JStr ''1.0'')
   \<and> resolution parse_release [''1.0'', ''3.0'', ''nightly'', ''2.0''] (JStr ''1.0'') (Some [])
     = Inr ([''1.0'', ''3.0'', ''nightly'', ''2.0''], JStr ''1.0'')
   \<and> get_compatible_versions parse_release str_only None
         (serving (pypi_document [''1.0'', ''3.0'', ''nightly'', ''2.0''] ''1.0''))
         \<lparr>package_name = ''sample'', package_manager = ''pip'', version_constraint = None\<rparr>
       = Inr \<lparr>package_name = ''sample'', package_manager = ''pip'', error = None,
              compatible_versions = [''1.0'', ''3.0'', ''nightly'', ''2.0''],
              recommended_version = Some ''1.0''\<rparr>
   \<and> get_compatible_versions parse_release str_only
         (Some (ValidationError ''recommended_version: Field required''))
         (serving (pypi_document [''1.0'', ''3.0'', ''nightly'', ''2.0''] ''1.0''))
         \<lparr>package_name = ''sample'', package_manager = ''pip'', version_constraint = None\<rparr>
       = Inr \<lparr>package_name = ''sample'', package_manager = ''pip'', error = None,
              compatible_versions = [''1.0'', ''3.0'', ''nightly'', ''2.0''],
              recommended_version = Some ''1.0''\<rparr>"
proof -
  note t = no_constraint_passes_through[of parse_release
      "[''1.0'', ''3.0'', ''nightly'', ''2.0'']" "JStr ''1.0''" empty_store 0]
  have a: "resolution parse_release [''1.0'', ''3.0'', ''nightly'', ''2.0''] (JStr ''1.0'') None
     = Inr ([''1.0'', ''3.0'', ''nightly'', ''2.0''], JStr ''1.0'')"
    using t by (rule conjunct1)
  have b: "resolution parse_release [''1.0'', ''3.0'', ''nightly'', ''2.0''] (JStr ''1.0'') (Some [])
     = Inr ([''1.0'', ''3.0'', ''nightly'', ''2.0''], JStr ''1.0'')"
    using t by blast
  have c: "get_compatible_versions parse_release str_only None
         (serving (pypi_document [''1.0'', ''3.0'', ''nightly'', ''2.0''] ''1.0''))
         \<lparr>package_name = ''sample'', package_manager = ''pip'', version_constraint = None\<rparr>
       = Inr \<lparr>package_name = ''sample'', package_manager = ''pip'', error = None,
              compatible_versions = [''1.0'', ''3.0'', ''nightly'', ''2.0''],
              recommended_version = Some ''1.0''\<rparr>"
    by code_simp
  have d: "get_compatible_versions parse_release str_only
         (Some (ValidationError ''recommended_version: Field required''))
         (serving (pypi_document [''1.0'', ''3.0'', ''nightly'', ''2.0''] ''1.0''))
         \<lparr>package_name = ''sample'', package_manager = ''pip'', version_constraint = None\<rparr>
       = Inr \<lparr>package_name = ''sample'', package_manager = ''pip'', error = None,
              compatible_versions = [''1.0'', ''3.0'', ''nightly'', ''2.0''],
              recommended_version = Some ''1.0''\<rparr>"
    by code_simp
  from a b c d show ?thesis by (intro conjI)
qed

subsection \<open>C10: an unrecognised operator ranks all candidates\<close>

text \<open>
  Claim C10: for a non-empty constraint that starts with none of the six operators and
  a non-empty candidate list in which every version parses, the returned list is the
  whole candidate list ordered by parsed version, descending, and the recommendation
  is its first element, a candidate whose parsed version is at least that of every
  candidate. The latest version the registry reports plays no part.
\<close>

theorem unrecognised_operator_ranks_all:
  assumes "constraint \<noteq> []" and "\<not> recognised constraint"
    and "vs \<noteq> []" and "\<forall>v\<in>set vs. parse v \<noteq> None"
  shows "resolution parse vs latest (Some constraint) =
           Inr (descending parse vs, JStr (hd (descending parse vs)))
       \<and> mset (descending parse vs) = mset vs
       \<and> sorted_wrt (\<lambda>a b. the (parse b) \<le> the (parse a)) (descending parse vs)
       \<and> hd (descending parse vs) \<in> set vs
       \<and> (\<forall>v\<in>set vs. the (parse v) \<le> the (parse (hd (descending parse vs))))"
proof -
  have sel: "select_matching parse constraint vs = Inr None"
    using assms(2) by (rule select_unrecognised)
  have "resolution parse vs latest (Some constraint) =
           Inr (descending parse vs, JStr (hd (descending parse vs)))"
    using resolution_ranked[OF assms(1) sel] assms(3,4) by (simp add: matches_of_def)
  moreover have "descending parse vs \<noteq> []" using assms(3) by (simp add: descending_Nil)
  then have "hd (descending parse vs) \<in> set (descending parse vs)" by simp
  then have "hd (descending parse vs) \<in> set vs" by (simp add: set_descending)
  ultimately show ?thesis
    using mset_descending[of parse vs] descending_wrt[of parse vs] hd_descending_greatest[of _ vs parse]
    by blast
qed

text \<open>
  The registry reports 1.0 as latest; with the constraint \<^verbatim>\<open>!=2.0\<close> all three
  candidates come back, 2.0 included, and 2.0 is recommended.
\<close>

theorem unrecognised_operator_ranks_all_witness:
  "''!=2.0'' \<noteq> [] \<and> \<not> recognised ''!=2.0'' \<and> [''1.0'', ''2.0'', ''1.5''] \<noteq> []
   \<and> list_all (\<lambda>v. parse_release v \<noteq> None) [''1.0'', ''2.0'', ''1.5'']
   \<and> resolution parse_release [''1.0'', ''2.0'', ''1.5''] (JStr ''1.0'') (Some ''!=2.0'')
       = Inr ([''2.0'', ''1.5'', ''1.0''], JStr ''2.0'')"
proof -
  have h1: "''!=2.0'' \<noteq> []" by simp
  have h2: "\<not> recognised ''!=2.0''" by code_simp
  have h3: "[''1.0'', ''2.0'', ''1.5''] \<noteq> []" by simp
  have l4: "list_all (\<lambda>v. parse_release v \<noteq> None) [''1.0'', ''2.0'', ''1.5'']" by code_simp
  then have h4: "\<forall>v\<in>set [''1.0'', ''2.0'', ''1.5'']. parse_release v \<noteq> None"
    by (simp only: list_all_iff)
  have d: "descending parse_release [''1.0'', ''2.0'', ''1.5''] = [''2.0'', ''1.5'', ''1.0'']"
    by code_simp
  have r: "resolution parse_release [''1.0'', ''2.0'', ''1.5''] (JStr ''1.0'') (Some ''!=2.0'')
       = Inr (descending parse_release [''1.0'', ''2.0'', ''1.5''],
              JStr (hd (descending parse_release [''1.0'', ''2.0'', ''1.5''])))"
    using unrecognised_operator_ranks_all[OF h1 h2 h3 h4, of "JStr ''1.0''"] by (rule conjunct1)
  have "resolution parse_release [''1.0'', ''2.0'', ''1.5''] (JStr ''1.0'') (Some ''!=2.0'')
       = Inr ([''2.0'', ''1.5'', ''1.0''], JStr ''2.0'')"
    using r unfolding d by simp
  with h1 h2 h3 l4 show ?thesis by (intro conjI)
qed

end
